theory Spec2Isabelle
  imports Complex_Main "HOL-Library.AList" "HOL-Library.Monad_Syntax"
begin

section \<open>Strings and the two regular expressions of the phone utilities\<close>

text \<open>
  The phone utilities look at the characters of their input, so there a Python \<open>str\<close> is the
  list of its code points, a \<open>pystr\<close>, and \<open>len\<close> is \<^const>\<open>length\<close>; \<open>ustr\<close> gives the code points
  of a literal. Everywhere else in the client strings are only compared, concatenated and
  stripped of a trailing slash, and are modelled as \<^typ>\<open>string\<close>.

  For a \<open>str\<close> pattern without the ASCII flag, the class \<open>\s\<close> of Python's \<open>re\<close> is the
  Unicode whitespace (the characters for which \<open>str.isspace\<close> holds), listed below, and the
  class \<open>\d\<close> is the Unicode decimal digits (category Nd): the ten ASCII digits, the
  Arabic-Indic digits U+0660 to U+0669, and the further members of the category, which depend
  on the version of the Unicode database of the interpreter and are the parameter \<open>other\<close>.
\<close>

type_synonym pystr = "nat list"

definition cp :: "char \<Rightarrow> nat" where
  "cp c = of_char c"

definition ustr :: "string \<Rightarrow> pystr" where
  "ustr s = map cp s"

definition in_range :: "nat \<Rightarrow> nat \<Rightarrow> nat \<Rightarrow> bool" where
  "in_range lo hi c = (lo \<le> c \<and> c \<le> hi)"

definition is_space :: "nat \<Rightarrow> bool" where
  "is_space c =
     (c \<in> set [0x09, 0x0A, 0x0B, 0x0C, 0x0D, 0x1C, 0x1D, 0x1E, 0x1F, 0x20, 0x85, 0xA0,
                0x1680, 0x2028, 0x2029, 0x202F, 0x205F, 0x3000]
      \<or> in_range 0x2000 0x200A c)"

definition ascii_digit :: "nat \<Rightarrow> bool" where
  "ascii_digit c = in_range (cp CHR ''0'') (cp CHR ''9'') c"

definition is_digit :: "(nat \<Rightarrow> bool) \<Rightarrow> nat \<Rightarrow> bool" where
  "is_digit other c = (ascii_digit c \<or> in_range 0x660 0x669 c \<or> other c)"

text \<open>\<open>s.startswith(p)\<close> and the slice \<open>s[1:]\<close>.\<close>

definition startswith :: "'a list \<Rightarrow> 'a list \<Rightarrow> bool" where
  "startswith s p = (take (length p) s = p)"

definition slice_from_1 :: "'a list \<Rightarrow> 'a list" where
  "slice_from_1 s = drop 1 s"

text \<open>
  The fragment of Python's regular expressions that \<open>client.py\<close> uses: the anchors \<open>^\<close>
  and \<open>$\<close>, a character class, \<open>r?\<close>, the bounded repetition \<open>r{m,n}\<close> and
  concatenation. \<open>rmatch r (i, s)\<close> lists, in the order a backtracking matcher tries them,
  the states the matcher can be in after \<open>r\<close>, started at position \<open>i\<close> with \<open>s\<close> still to read.
  Without the MULTILINE flag \<open>^\<close> matches at position 0 only, and \<open>$\<close> matches at the end
  of the string and just before a newline that ends the string.
\<close>

datatype regex =
    Bol
  | Eol
  | Class "nat \<Rightarrow> bool"
  | Opt regex
  | Rep nat nat regex
  | Cat regex regex

fun rsize :: "regex \<Rightarrow> nat" where
  "rsize Bol = 1"
| "rsize Eol = 1"
| "rsize (Class P) = 1"
| "rsize (Opt r) = Suc (rsize r)"
| "rsize (Rep m n r) = Suc (n + rsize r)"
| "rsize (Cat r1 r2) = Suc (rsize r1 + rsize r2)"

function rmatch :: "regex \<Rightarrow> nat \<times> pystr \<Rightarrow> (nat \<times> pystr) list" where
  "rmatch Bol (i, s) = (if i = 0 then [(i, s)] else [])"
| "rmatch Eol (i, s) = (if s = [] \<or> s = [0x0A] then [(i, s)] else [])"
| "rmatch (Class P) (i, s) = (case s of [] \<Rightarrow> [] | c # cs \<Rightarrow> if P c then [(Suc i, cs)] else [])"
| "rmatch (Opt r) (i, s) = rmatch r (i, s) @ [(i, s)]"
| "rmatch (Rep m 0 r) (i, s) = (if m = 0 then [(i, s)] else [])"
| "rmatch (Rep m (Suc n) r) (i, s) =
     concat (map (rmatch (Rep (m - 1) n r)) (rmatch r (i, s))) @ (if m = 0 then [(i, s)] else [])"
| "rmatch (Cat r1 r2) (i, s) = concat (map (rmatch r2) (rmatch r1 (i, s)))"
  by pat_completeness auto
termination
  by (relation "measure (\<lambda>(r, st). rsize r)") auto

text \<open>\<open>bool(re.match(r, s))\<close>: the match starts at position 0 and need not reach the end.\<close>

definition re_match :: "regex \<Rightarrow> pystr \<Rightarrow> bool" where
  "re_match r s = (rmatch r (0, s) \<noteq> [])"

text \<open>
  \<open>re.sub(r, '', s)\<close> for a pattern \<open>r\<close> that is one character class: every character of
  the class is removed.
\<close>

definition re_sub_class :: "(nat \<Rightarrow> bool) \<Rightarrow> pystr \<Rightarrow> pystr" where
  "re_sub_class P s = filter (\<lambda>c. \<not> P c) s"

text \<open>The class \<open>[\s\-\(\)]\<close> and the pattern \<open>^[\+]?[1-9][\d]{0,15}$\<close>.\<close>

definition separator :: "nat \<Rightarrow> bool" where
  "separator c = (is_space c \<or> c = cp CHR ''-'' \<or> c = cp CHR ''('' \<or> c = cp CHR '')'')"

definition phone_regex :: "(nat \<Rightarrow> bool) \<Rightarrow> regex" where
  "phone_regex other =
     Cat Bol (Cat (Opt (Class (\<lambda>c. c = cp CHR ''+'')))
       (Cat (Class (in_range (cp CHR ''1'') (cp CHR ''9'')))
         (Cat (Rep 0 15 (Class (is_digit other))) Eol)))"

section \<open>The utilities \<open>validate_phone_number\<close> and \<open>format_phone_number\<close>\<close>

definition validate_phone_number :: "(nat \<Rightarrow> bool) \<Rightarrow> pystr \<Rightarrow> bool" where
  "validate_phone_number other phone_number =
     (let cleaned = re_sub_class separator phone_number
      in re_match (phone_regex other) cleaned)"

definition format_phone_number :: "pystr \<Rightarrow> pystr \<Rightarrow> pystr" where
  "format_phone_number phone_number country_code =
     (let cleaned = re_sub_class separator phone_number
      in if startswith cleaned (ustr ''+'') then cleaned
         else if startswith cleaned (ustr ''0'') then country_code @ slice_from_1 cleaned
         else if startswith cleaned (ustr ''91'') \<and> length cleaned = 12 then ustr ''+'' @ cleaned
         else if length cleaned = 10 then country_code @ cleaned
         else phone_number)"

text \<open>
  The shape of a phone number: an optional leading \<open>+\<close>, a first digit in 1 to 9, and up to
  15 further digits, for a given notion of a further digit.
\<close>

definition phone_shape :: "(nat \<Rightarrow> bool) \<Rightarrow> pystr \<Rightarrow> bool" where
  "phone_shape further s =
     (let digits = (if startswith s (ustr ''+'') then slice_from_1 s else s)
      in case digits of
           [] \<Rightarrow> False
         | d # ds \<Rightarrow>
             in_range (cp CHR ''1'') (cp CHR ''9'') d \<and> list_all further ds \<and> length ds \<le> 15)"

text \<open>
  The two utilities as the specification words them: spaces, hyphens and parentheses are
  removed, and a digit is one of 0 to 9. In the precedence rules the country-code digits are
  the country code without its leading \<open>+\<close>, and "returned unchanged" is read as the stripped
  string in the first rule, which is what the code returns there.
\<close>

definition spec_separator :: "nat \<Rightarrow> bool" where
  "spec_separator c =
     (c = cp CHR '' '' \<or> c = cp CHR ''-'' \<or> c = cp CHR ''('' \<or> c = cp CHR '')'')"

definition spec_validate_phone_number :: "pystr \<Rightarrow> bool" where
  "spec_validate_phone_number phone_number =
     phone_shape ascii_digit (re_sub_class spec_separator phone_number)"

definition country_code_digits :: "pystr \<Rightarrow> pystr" where
  "country_code_digits country_code =
     (if startswith country_code (ustr ''+'') then slice_from_1 country_code else country_code)"

definition spec_format_phone_number :: "pystr \<Rightarrow> pystr \<Rightarrow> pystr" where
  "spec_format_phone_number phone_number country_code =
     (let cleaned = re_sub_class spec_separator phone_number;
          ccd = country_code_digits country_code
      in if startswith cleaned (ustr ''+'') then cleaned
         else if startswith cleaned (ustr ''0'') then country_code @ slice_from_1 cleaned
         else if list_all ascii_digit cleaned \<and> startswith cleaned ccd
                 \<and> length cleaned = length ccd + 10 then ustr ''+'' @ cleaned
         else if list_all ascii_digit cleaned \<and> length cleaned = 10 then country_code @ cleaned
         else phone_number)"

text \<open>A Unicode database with no decimal digits beyond those named above.\<close>

definition no_other_digits :: "nat \<Rightarrow> bool" where
  "no_other_digits c = False"

section \<open>Python values and dictionaries\<close>

text \<open>
  The values that a decoded JSON body and a \<open>model_dump\<close> hold. A \<open>float\<close> is only carried
  from one place to another, never computed with, and is modelled as a \<^typ>\<open>real\<close>. A \<open>dict\<close>
  is an association list in insertion order; the dictionaries built here have distinct keys.
\<close>

datatype pyval =
    PNone
  | PBool bool
  | PInt int
  | PFloat real
  | PStr string
  | PList "pyval list"
  | PDict "(string \<times> pyval) list"

type_synonym pydict = "(string \<times> pyval) list"

text \<open>\<open>d[k] = v\<close>, \<open>k in d\<close>, \<open>d.pop(k)\<close> (for a key that is present) and \<open>d.keys()\<close>.\<close>

definition dict_set :: "pydict \<Rightarrow> string \<Rightarrow> pyval \<Rightarrow> pydict" where
  "dict_set d k v = AList.update k v d"

definition dict_contains :: "pydict \<Rightarrow> string \<Rightarrow> bool" where
  "dict_contains d k = (map_of d k \<noteq> None)"

definition dict_pop :: "pydict \<Rightarrow> string \<Rightarrow> pyval option \<times> pydict" where
  "dict_pop d k = (map_of d k, AList.delete k d)"

definition keys :: "pydict \<Rightarrow> string list" where
  "keys d = map fst d"

definition dict_values :: "pydict \<Rightarrow> pyval list" where
  "dict_values d = map snd d"

text \<open>Python's truth value of an optional string and of an optional dictionary.\<close>

fun truthy_str :: "string option \<Rightarrow> bool" where
  "truthy_str None = False"
| "truthy_str (Some s) = (s \<noteq> [])"

fun truthy_dict :: "pydict option \<Rightarrow> bool" where
  "truthy_dict None = False"
| "truthy_dict (Some d) = (d \<noteq> [])"

section \<open>The entity model\<close>

text \<open>
  Each pydantic class is a record. A field is named after the class and the attribute
  (\<open>ac_locale\<close> is \<open>AgentConfig.locale\<close>), since the classes share attribute names;
  \<open>co_from\<close> and \<open>clo_from\<close> are the attributes \<open>from_\<close>, declared with the alias \<open>from\<close>.
  An \<open>Optional\<close> field is an \<^typ>\<open>'a option\<close>.
\<close>

datatype Direction = Direction_INBOUND | Direction_OUTBOUND

datatype CallStatus =
    CallStatus_CREATED
  | CallStatus_RINGING
  | CallStatus_ANSWERED
  | CallStatus_ACTIVE
  | CallStatus_COMPLETED
  | CallStatus_FAILED

datatype AgentStatus = AgentStatus_ACTIVE | AgentStatus_INACTIVE | AgentStatus_DRAFT

fun Direction_value :: "Direction \<Rightarrow> string" where
  "Direction_value Direction_INBOUND = ''inbound''"
| "Direction_value Direction_OUTBOUND = ''outbound''"

record AgentConfig =
  ac_name :: string
  ac_prompt :: string
  ac_voice :: "string option"
  ac_locale :: "string option"
  ac_temperature :: "real option"
  ac_model :: "string option"
  ac_max_tokens :: "int option"
  ac_system_prompt :: "string option"
  ac_tools :: "pydict list option"
  ac_metadata :: "pydict option"

record CallOptions =
  co_agent_id :: string
  co_to :: string
  co_from :: "string option"
  co_direction :: Direction
  co_metadata :: "pydict option"
  co_recording :: "bool option"
  co_transcription :: "bool option"

record ListOptions =
  lo_page :: "int option"
  lo_limit :: "int option"
  lo_search :: "string option"
  lo_status :: "string option"
  lo_sort_by :: "string option"
  lo_sort_order :: "string option"

record CallListOptions = ListOptions +
  clo_agent_id :: "string option"
  clo_from :: "string option"
  clo_to :: "string option"

record PaginatedResponse =
  pr_data :: "pyval list"
  pr_pagination :: pydict

record Agent =
  ag_id :: string
  ag_name :: string
  ag_config :: AgentConfig
  ag_status :: AgentStatus
  ag_tenant_id :: string
  ag_created_at :: string
  ag_updated_at :: string
  ag_stats :: "pydict option"

record Call =
  ca_id :: string
  ca_agent_id :: string
  ca_direction :: string
  ca_from_num :: string
  ca_to_num :: string
  ca_status :: CallStatus
  ca_started_at :: string
  ca_ended_at :: "string option"
  ca_duration :: "int option"
  ca_cost_inr :: "real option"
  ca_metadata :: "pydict option"
  ca_costs :: "pydict list option"

record TimelineEvent =
  te_id :: string
  te_kind :: string
  te_payload :: pyval
  te_timestamp :: string

record CallArtifacts =
  art_recording :: "string option"
  art_transcription :: "string option"
  art_summary :: "string option"
  art_metadata :: "pydict option"

record TenantUsage =
  tu_tenant_id :: string
  tu_period :: string
  tu_calls :: pydict
  tu_agents :: pydict

record CallAnalytics =
  an_call_id :: string
  an_total_events :: int
  an_event_types :: "(string \<times> int) list"
  an_duration :: int
  an_sentiment :: string
  an_topics :: "string list"

text \<open>The defaults of \<open>ListOptions()\<close> and \<open>CallListOptions()\<close>.\<close>

definition ListOptions_default :: ListOptions where
  "ListOptions_default =
     \<lparr>lo_page = Some 1, lo_limit = Some 50, lo_search = None, lo_status = None,
      lo_sort_by = None, lo_sort_order = Some ''desc''\<rparr>"

definition CallListOptions_default :: CallListOptions where
  "CallListOptions_default =
     \<lparr>lo_page = Some 1, lo_limit = Some 50, lo_search = None, lo_status = None,
      lo_sort_by = None, lo_sort_order = Some ''desc'',
      clo_agent_id = None, clo_from = None, clo_to = None\<rparr>"

section \<open>The request encoder: \<open>model_dump(exclude_none=True)\<close>\<close>

text \<open>
  \<open>model_dump\<close> lists the fields of a model in the order of their declaration (those of a
  base class first), each under its attribute name: \<open>by_alias\<close> is not set, so the key of
  \<open>from_\<close> is \<open>from_\<close>, as \<open>list_calls\<close> relies on. An enum member that is also a \<open>str\<close> is
  its value. \<open>exclude_none\<close> drops the fields whose value is \<open>None\<close>; it does not look into
  the dictionaries a field holds.
\<close>

fun opt :: "('a \<Rightarrow> pyval) \<Rightarrow> 'a option \<Rightarrow> pyval" where
  "opt f None = PNone"
| "opt f (Some x) = f x"

definition exclude_none :: "pydict \<Rightarrow> pydict" where
  "exclude_none d = filter (\<lambda>kv. snd kv \<noteq> PNone) d"

definition AgentConfig_fields :: "AgentConfig \<Rightarrow> pydict" where
  "AgentConfig_fields c =
     [(''name'', PStr (ac_name c)),
      (''prompt'', PStr (ac_prompt c)),
      (''voice'', opt PStr (ac_voice c)),
      (''locale'', opt PStr (ac_locale c)),
      (''temperature'', opt PFloat (ac_temperature c)),
      (''model'', opt PStr (ac_model c)),
      (''max_tokens'', opt PInt (ac_max_tokens c)),
      (''system_prompt'', opt PStr (ac_system_prompt c)),
      (''tools'', opt (\<lambda>ts. PList (map PDict ts)) (ac_tools c)),
      (''metadata'', opt PDict (ac_metadata c))]"

definition CallOptions_fields :: "CallOptions \<Rightarrow> pydict" where
  "CallOptions_fields options =
     [(''agent_id'', PStr (co_agent_id options)),
      (''to'', PStr (co_to options)),
      (''from_'', opt PStr (co_from options)),
      (''direction'', PStr (Direction_value (co_direction options))),
      (''metadata'', opt PDict (co_metadata options)),
      (''recording'', opt PBool (co_recording options)),
      (''transcription'', opt PBool (co_transcription options))]"

definition ListOptions_fields :: "'a ListOptions_scheme \<Rightarrow> pydict" where
  "ListOptions_fields options =
     [(''page'', opt PInt (lo_page options)),
      (''limit'', opt PInt (lo_limit options)),
      (''search'', opt PStr (lo_search options)),
      (''status'', opt PStr (lo_status options)),
      (''sort_by'', opt PStr (lo_sort_by options)),
      (''sort_order'', opt PStr (lo_sort_order options))]"

definition CallListOptions_fields :: "CallListOptions \<Rightarrow> pydict" where
  "CallListOptions_fields options =
     ListOptions_fields options @
     [(''agent_id'', opt PStr (clo_agent_id options)),
      (''from_'', opt PStr (clo_from options)),
      (''to'', opt PStr (clo_to options))]"

definition AgentConfig_model_dump :: "AgentConfig \<Rightarrow> pydict" where
  "AgentConfig_model_dump c = exclude_none (AgentConfig_fields c)"

definition CallOptions_model_dump :: "CallOptions \<Rightarrow> pydict" where
  "CallOptions_model_dump options = exclude_none (CallOptions_fields options)"

definition ListOptions_model_dump :: "ListOptions \<Rightarrow> pydict" where
  "ListOptions_model_dump options = exclude_none (ListOptions_fields options)"

definition CallListOptions_model_dump :: "CallListOptions \<Rightarrow> pydict" where
  "CallListOptions_model_dump options = exclude_none (CallListOptions_fields options)"

text \<open>
  The body that \<open>create_call\<close> builds (its local \<open>call_data\<close>) and the query mappings that
  \<open>list_agents\<close> and \<open>list_calls\<close> build (their local \<open>params\<close>).
\<close>

definition create_call_data :: "CallOptions \<Rightarrow> pydict" where
  "create_call_data options =
     (let call_data = CallOptions_model_dump options
      in if truthy_str (co_from options)
         then dict_set call_data ''from'' (opt PStr (co_from options))
         else call_data)"

definition list_agents_params :: "ListOptions option \<Rightarrow> pydict" where
  "list_agents_params options =
     (let options = (case options of None \<Rightarrow> ListOptions_default | Some given \<Rightarrow> given)
      in ListOptions_model_dump options)"

definition list_calls_params :: "CallListOptions option \<Rightarrow> pydict" where
  "list_calls_params options =
     (let options = (case options of None \<Rightarrow> CallListOptions_default | Some given \<Rightarrow> given);
          params = CallListOptions_model_dump options
      in if dict_contains params ''from_''
         then (case dict_pop params ''from_'' of
                 (Some popped, params') \<Rightarrow> dict_set params' ''from'' popped
               | (None, params') \<Rightarrow> params')
         else params)"

section \<open>The response decoder: pydantic validation\<close>

text \<open>
  \<open>Model(**data)\<close> validates a dictionary against the fields of the class, in pydantic's
  lax mode: a key that is missing takes the default of its field (a field without a default
  is required), keys that name no field are ignored, and a value of the exact type of its
  field is accepted as it is. What lax mode makes of a value of another type where an \<open>int\<close>
  or a \<open>float\<close> is expected (a numeric string, a float without fraction) is pydantic's own
  code, which is not part of this repository: it is the parameter \<open>lax\<close>. A validator returns
  \<open>None\<close> where pydantic raises \<open>ValidationError\<close>.
\<close>

record lax_rules =
  lax_int :: "pyval \<Rightarrow> int option"
  lax_float :: "pyval \<Rightarrow> real option"

definition v_str :: "pyval \<Rightarrow> string option" where
  "v_str p = (case p of PStr s \<Rightarrow> Some s | _ \<Rightarrow> None)"

definition v_int :: "lax_rules \<Rightarrow> pyval \<Rightarrow> int option" where
  "v_int lax p = (case p of PInt i \<Rightarrow> Some i | _ \<Rightarrow> lax_int lax p)"

definition v_float :: "lax_rules \<Rightarrow> pyval \<Rightarrow> real option" where
  "v_float lax p = (case p of PFloat r \<Rightarrow> Some r | _ \<Rightarrow> lax_float lax p)"

definition v_any :: "pyval \<Rightarrow> pyval option" where
  "v_any p = Some p"

definition v_optional :: "(pyval \<Rightarrow> 'a option) \<Rightarrow> pyval \<Rightarrow> 'a option option" where
  "v_optional v p = (case p of PNone \<Rightarrow> Some None | _ \<Rightarrow> map_option Some (v p))"

fun v_all :: "('a \<Rightarrow> 'b option) \<Rightarrow> 'a list \<Rightarrow> 'b list option" where
  "v_all v [] = Some []"
| "v_all v (x # xs) =
     (case v x of None \<Rightarrow> None
      | Some y \<Rightarrow> (case v_all v xs of None \<Rightarrow> None | Some ys \<Rightarrow> Some (y # ys)))"

definition v_list :: "(pyval \<Rightarrow> 'a option) \<Rightarrow> pyval \<Rightarrow> 'a list option" where
  "v_list v p = (case p of PList xs \<Rightarrow> v_all v xs | _ \<Rightarrow> None)"

definition v_dict :: "(pyval \<Rightarrow> 'a option) \<Rightarrow> pyval \<Rightarrow> (string \<times> 'a) list option" where
  "v_dict v p =
     (case p of PDict kvs \<Rightarrow> v_all (\<lambda>kv. map_option (Pair (fst kv)) (v (snd kv))) kvs
      | _ \<Rightarrow> None)"

definition v_model :: "(pydict \<Rightarrow> 'a option) \<Rightarrow> pyval \<Rightarrow> 'a option" where
  "v_model validate p = (case p of PDict kvs \<Rightarrow> validate kvs | _ \<Rightarrow> None)"

definition v_AgentStatus :: "pyval \<Rightarrow> AgentStatus option" where
  "v_AgentStatus p =
     (case p of
        PStr s \<Rightarrow>
          if s = ''active'' then Some AgentStatus_ACTIVE
          else if s = ''inactive'' then Some AgentStatus_INACTIVE
          else if s = ''draft'' then Some AgentStatus_DRAFT
          else None
      | _ \<Rightarrow> None)"

definition v_CallStatus :: "pyval \<Rightarrow> CallStatus option" where
  "v_CallStatus p =
     (case p of
        PStr s \<Rightarrow>
          if s = ''created'' then Some CallStatus_CREATED
          else if s = ''ringing'' then Some CallStatus_RINGING
          else if s = ''answered'' then Some CallStatus_ANSWERED
          else if s = ''active'' then Some CallStatus_ACTIVE
          else if s = ''completed'' then Some CallStatus_COMPLETED
          else if s = ''failed'' then Some CallStatus_FAILED
          else None
      | _ \<Rightarrow> None)"

text \<open>A field without a default, and a field with one.\<close>

definition required :: "pydict \<Rightarrow> string \<Rightarrow> (pyval \<Rightarrow> 'a option) \<Rightarrow> 'a option" where
  "required data k v = (case map_of data k of None \<Rightarrow> None | Some p \<Rightarrow> v p)"

definition with_default :: "pydict \<Rightarrow> string \<Rightarrow> 'a \<Rightarrow> (pyval \<Rightarrow> 'a option) \<Rightarrow> 'a option" where
  "with_default data k d v = (case map_of data k of None \<Rightarrow> Some d | Some p \<Rightarrow> v p)"

definition validate_AgentConfig :: "lax_rules \<Rightarrow> pydict \<Rightarrow> AgentConfig option" where
  "validate_AgentConfig lax data = do {
     name \<leftarrow> required data ''name'' v_str;
     prompt \<leftarrow> required data ''prompt'' v_str;
     voice \<leftarrow> with_default data ''voice'' None (v_optional v_str);
     locale \<leftarrow> with_default data ''locale'' (Some ''en-IN'') (v_optional v_str);
     temperature \<leftarrow> with_default data ''temperature'' (Some (7 / 10)) (v_optional (v_float lax));
     model \<leftarrow> with_default data ''model'' (Some ''gpt-4o-mini'') (v_optional v_str);
     max_tokens \<leftarrow> with_default data ''max_tokens'' (Some 1000) (v_optional (v_int lax));
     system_prompt \<leftarrow> with_default data ''system_prompt'' None (v_optional v_str);
     tools \<leftarrow> with_default data ''tools'' None (v_optional (v_list (v_dict v_any)));
     metadata \<leftarrow> with_default data ''metadata'' None (v_optional (v_dict v_any));
     Some \<lparr>ac_name = name, ac_prompt = prompt, ac_voice = voice, ac_locale = locale,
           ac_temperature = temperature, ac_model = model, ac_max_tokens = max_tokens,
           ac_system_prompt = system_prompt, ac_tools = tools, ac_metadata = metadata\<rparr>
   }"

definition validate_Agent :: "lax_rules \<Rightarrow> pydict \<Rightarrow> Agent option" where
  "validate_Agent lax data = do {
     id \<leftarrow> required data ''id'' v_str;
     name \<leftarrow> required data ''name'' v_str;
     config \<leftarrow> required data ''config'' (v_model (validate_AgentConfig lax));
     status \<leftarrow> required data ''status'' v_AgentStatus;
     tenant_id \<leftarrow> required data ''tenant_id'' v_str;
     created_at \<leftarrow> required data ''created_at'' v_str;
     updated_at \<leftarrow> required data ''updated_at'' v_str;
     stats \<leftarrow> with_default data ''stats'' None (v_optional (v_dict v_any));
     Some \<lparr>ag_id = id, ag_name = name, ag_config = config, ag_status = status,
           ag_tenant_id = tenant_id, ag_created_at = created_at, ag_updated_at = updated_at,
           ag_stats = stats\<rparr>
   }"

definition validate_PaginatedResponse :: "pydict \<Rightarrow> PaginatedResponse option" where
  "validate_PaginatedResponse data = do {
     items \<leftarrow> required data ''data'' (v_list v_any);
     pagination \<leftarrow> required data ''pagination'' (v_dict v_any);
     Some \<lparr>pr_data = items, pr_pagination = pagination\<rparr>
   }"

definition validate_Call :: "lax_rules \<Rightarrow> pydict \<Rightarrow> Call option" where
  "validate_Call lax data = do {
     id \<leftarrow> required data ''id'' v_str;
     agent_id \<leftarrow> required data ''agent_id'' v_str;
     direction \<leftarrow> required data ''direction'' v_str;
     from_num \<leftarrow> required data ''from_num'' v_str;
     to_num \<leftarrow> required data ''to_num'' v_str;
     status \<leftarrow> required data ''status'' v_CallStatus;
     started_at \<leftarrow> required data ''started_at'' v_str;
     ended_at \<leftarrow> with_default data ''ended_at'' None (v_optional v_str);
     duration \<leftarrow> with_default data ''duration'' None (v_optional (v_int lax));
     cost_inr \<leftarrow> with_default data ''cost_inr'' None (v_optional (v_float lax));
     metadata \<leftarrow> with_default data ''metadata'' None (v_optional (v_dict v_any));
     costs \<leftarrow> with_default data ''costs'' None (v_optional (v_list (v_dict v_any)));
     Some \<lparr>ca_id = id, ca_agent_id = agent_id, ca_direction = direction, ca_from_num = from_num,
           ca_to_num = to_num, ca_status = status, ca_started_at = started_at,
           ca_ended_at = ended_at, ca_duration = duration, ca_cost_inr = cost_inr,
           ca_metadata = metadata, ca_costs = costs\<rparr>
   }"

definition validate_TimelineEvent :: "pydict \<Rightarrow> TimelineEvent option" where
  "validate_TimelineEvent data = do {
     id \<leftarrow> required data ''id'' v_str;
     kind \<leftarrow> required data ''kind'' v_str;
     payload \<leftarrow> required data ''payload'' v_any;
     timestamp \<leftarrow> required data ''timestamp'' v_str;
     Some \<lparr>te_id = id, te_kind = kind, te_payload = payload, te_timestamp = timestamp\<rparr>
   }"

definition validate_CallArtifacts :: "pydict \<Rightarrow> CallArtifacts option" where
  "validate_CallArtifacts data = do {
     recording \<leftarrow> with_default data ''recording'' None (v_optional v_str);
     transcription \<leftarrow> with_default data ''transcription'' None (v_optional v_str);
     summary \<leftarrow> with_default data ''summary'' None (v_optional v_str);
     metadata \<leftarrow> with_default data ''metadata'' None (v_optional (v_dict v_any));
     Some \<lparr>art_recording = recording, art_transcription = transcription,
           art_summary = summary, art_metadata = metadata\<rparr>
   }"

definition validate_TenantUsage :: "pydict \<Rightarrow> TenantUsage option" where
  "validate_TenantUsage data = do {
     tenant_id \<leftarrow> required data ''tenant_id'' v_str;
     period \<leftarrow> required data ''period'' v_str;
     calls \<leftarrow> required data ''calls'' (v_dict v_any);
     agents \<leftarrow> required data ''agents'' (v_dict v_any);
     Some \<lparr>tu_tenant_id = tenant_id, tu_period = period, tu_calls = calls, tu_agents = agents\<rparr>
   }"

definition validate_CallAnalytics :: "lax_rules \<Rightarrow> pydict \<Rightarrow> CallAnalytics option" where
  "validate_CallAnalytics lax data = do {
     call_id \<leftarrow> required data ''call_id'' v_str;
     total_events \<leftarrow> required data ''total_events'' (v_int lax);
     event_types \<leftarrow> required data ''event_types'' (v_dict (v_int lax));
     duration \<leftarrow> required data ''duration'' (v_int lax);
     sentiment \<leftarrow> required data ''sentiment'' v_str;
     topics \<leftarrow> required data ''topics'' (v_list v_str);
     Some \<lparr>an_call_id = call_id, an_total_events = total_events, an_event_types = event_types,
           an_duration = duration, an_sentiment = sentiment, an_topics = topics\<rparr>
   }"

section \<open>Errors, the client and the transport\<close>

text \<open>
  The exceptions an operation can raise: \<open>requests.HTTPError\<close> with the status of the
  response, another \<open>requests\<close> exception where no response arrives (connection failure,
  timeout), the \<open>JSONDecodeError\<close> of \<open>response.json()\<close>, pydantic's \<open>ValidationError\<close>, and
  Python's \<open>TypeError\<close> and \<open>AttributeError\<close>.
\<close>

datatype error =
    HTTPError int
  | RequestException
  | JSONDecodeError
  | ValidationError
  | TypeError
  | AttributeError

text \<open>
  \<open>Model(**data)\<close>: unpacking with \<open>**\<close> raises \<open>TypeError\<close> unless \<open>data\<close> is a mapping.
\<close>

definition construct :: "(pydict \<Rightarrow> 'a option) \<Rightarrow> pyval \<Rightarrow> error + 'a" where
  "construct validate data =
     (case data of
        PDict kvs \<Rightarrow> (case validate kvs of None \<Rightarrow> Inl ValidationError | Some x \<Rightarrow> Inr x)
      | _ \<Rightarrow> Inl TypeError)"

record InvortoClient =
  api_key :: string
  base_url :: string
  tenant_id :: "string option"
  session_headers :: "(string \<times> string) list"

text \<open>\<open>s.rstrip(chars)\<close> removes every trailing character that occurs in \<open>chars\<close>.\<close>

definition rstrip :: "string \<Rightarrow> string \<Rightarrow> string" where
  "rstrip s chars = rev (dropWhile (\<lambda>c. c \<in> set chars) (rev s))"

text \<open>
  \<open>__init__\<close>. Of the headers of the session only those that the client sets are modelled.
\<close>

definition InvortoClient_init :: "string \<Rightarrow> string \<Rightarrow> string option \<Rightarrow> InvortoClient" where
  "InvortoClient_init key url tenant =
     (let headers = [(''Authorization'', ''Bearer '' @ key), (''Content-Type'', ''application/json'')]
      in \<lparr>api_key = key,
          base_url = rstrip url ''/'',
          tenant_id = tenant,
          session_headers =
            (case tenant of
               Some t \<Rightarrow> if t \<noteq> [] then AList.update ''x-tenant-id'' t headers else headers
             | None \<Rightarrow> headers)\<rparr>)"

definition default_base_url :: string where
  "default_base_url = ''https://api.invorto.ai''"

text \<open>
  A request as \<open>session.request\<close> receives it, and the part of a response that the client
  reads: the status, the result of \<open>response.json()\<close> (\<open>None\<close> where the body is not JSON) and
  \<open>response.text\<close>.
\<close>

record request =
  req_method :: string
  req_url :: string
  req_headers :: "(string \<times> string) list"
  req_json :: "pyval option"
  req_params :: "pydict option"

record response =
  resp_status_code :: int
  resp_json :: "pyval option"
  resp_text :: string

text \<open>
  The remote service is a state machine \<open>srv\<close>: from its state and a request it gives a
  response, or none where the exchange fails below HTTP, and its next state. The world is the
  state of the service and the list of the requests sent so far.
\<close>

type_synonym 's transport = "'s \<Rightarrow> request \<Rightarrow> response option \<times> 's"

record 's world =
  sent :: "request list"
  remote :: 's

definition session_request :: "'s transport \<Rightarrow> request \<Rightarrow> 's world \<Rightarrow> response option \<times> 's world" where
  "session_request srv req w =
     (case srv (remote w) req of
        (r, s') \<Rightarrow> (r, \<lparr>sent = sent w @ [req], remote = s'\<rparr>))"

text \<open>\<open>response.raise_for_status()\<close> raises for a status from 400 to 599 and for no other.\<close>

definition raise_for_status :: "response \<Rightarrow> error option" where
  "raise_for_status r =
     (if 400 \<le> resp_status_code r \<and> resp_status_code r < 600
      then Some (HTTPError (resp_status_code r)) else None)"

definition make_request ::
  "'s transport \<Rightarrow> InvortoClient \<Rightarrow> string \<Rightarrow> string \<Rightarrow> pyval option \<Rightarrow> pydict option
     \<Rightarrow> 's world \<Rightarrow> (error + pyval) \<times> 's world" where
  "make_request srv client http_method endpoint json params w =
     (let url = base_url client @ endpoint
      in case session_request srv
             \<lparr>req_method = http_method, req_url = url, req_headers = session_headers client,
              req_json = json, req_params = params\<rparr> w of
           (None, w') \<Rightarrow> (Inl RequestException, w')
         | (Some r, w') \<Rightarrow>
             (case raise_for_status r of
                Some e \<Rightarrow> (Inl e, w')
              | None \<Rightarrow>
                  (case resp_json r of
                     None \<Rightarrow> (Inl JSONDecodeError, w')
                   | Some data \<Rightarrow> (Inr data, w'))))"

text \<open>What an operation does with the data of a successful request.\<close>

fun and_then :: "(error + 'a) \<times> 'w \<Rightarrow> ('a \<Rightarrow> error + 'b) \<Rightarrow> (error + 'b) \<times> 'w" where
  "and_then (Inl e, w) f = (Inl e, w)"
| "and_then (Inr x, w) f = (f x, w)"

section \<open>The operations of \<open>InvortoClient\<close>\<close>

text \<open>
  Every operation takes the pydantic parameter \<open>lax\<close> where it validates numbers, the
  service \<open>srv\<close>, the client and the world, and returns its result or its exception together
  with the world after it.
\<close>

definition create_agent ::
  "lax_rules \<Rightarrow> 's transport \<Rightarrow> InvortoClient \<Rightarrow> AgentConfig \<Rightarrow> 's world \<Rightarrow> (error + Agent) \<times> 's world" where
  "create_agent lax srv client config w =
     and_then
       (make_request srv client ''POST'' ''/v1/agents''
          (Some (PDict (AgentConfig_model_dump config))) None w)
       (construct (validate_Agent lax))"

definition get_agent ::
  "lax_rules \<Rightarrow> 's transport \<Rightarrow> InvortoClient \<Rightarrow> string \<Rightarrow> 's world \<Rightarrow> (error + Agent) \<times> 's world" where
  "get_agent lax srv client agent_id w =
     and_then (make_request srv client ''GET'' (''/v1/agents/'' @ agent_id) None None w)
       (construct (validate_Agent lax))"

definition list_agents ::
  "'s transport \<Rightarrow> InvortoClient \<Rightarrow> ListOptions option \<Rightarrow> 's world
     \<Rightarrow> (error + PaginatedResponse) \<times> 's world" where
  "list_agents srv client options w =
     (let params = list_agents_params options
      in and_then (make_request srv client ''GET'' ''/v1/agents'' None (Some params) w)
           (construct validate_PaginatedResponse))"

definition update_agent ::
  "lax_rules \<Rightarrow> 's transport \<Rightarrow> InvortoClient \<Rightarrow> string \<Rightarrow> pydict \<Rightarrow> 's world
     \<Rightarrow> (error + Agent) \<times> 's world" where
  "update_agent lax srv client agent_id updates w =
     and_then
       (make_request srv client ''PATCH'' (''/v1/agents/'' @ agent_id) (Some (PDict updates)) None w)
       (construct (validate_Agent lax))"

definition delete_agent ::
  "'s transport \<Rightarrow> InvortoClient \<Rightarrow> string \<Rightarrow> 's world \<Rightarrow> (error + pyval) \<times> 's world" where
  "delete_agent srv client agent_id w =
     make_request srv client ''DELETE'' (''/v1/agents/'' @ agent_id) None None w"

definition create_call ::
  "'s transport \<Rightarrow> InvortoClient \<Rightarrow> CallOptions \<Rightarrow> 's world \<Rightarrow> (error + pyval) \<times> 's world" where
  "create_call srv client options w =
     (let call_data = create_call_data options
      in make_request srv client ''POST'' ''/v1/calls'' (Some (PDict call_data)) None w)"

definition get_call ::
  "lax_rules \<Rightarrow> 's transport \<Rightarrow> InvortoClient \<Rightarrow> string \<Rightarrow> 's world \<Rightarrow> (error + Call) \<times> 's world" where
  "get_call lax srv client call_id w =
     and_then (make_request srv client ''GET'' (''/v1/calls/'' @ call_id) None None w)
       (construct (validate_Call lax))"

definition list_calls ::
  "'s transport \<Rightarrow> InvortoClient \<Rightarrow> CallListOptions option \<Rightarrow> 's world
     \<Rightarrow> (error + PaginatedResponse) \<times> 's world" where
  "list_calls srv client options w =
     (let params = list_calls_params options
      in and_then (make_request srv client ''GET'' ''/v1/calls'' None (Some params) w)
           (construct validate_PaginatedResponse))"

definition update_call_status ::
  "lax_rules \<Rightarrow> 's transport \<Rightarrow> InvortoClient \<Rightarrow> string \<Rightarrow> string \<Rightarrow> pydict option \<Rightarrow> 's world
     \<Rightarrow> (error + Call) \<times> 's world" where
  "update_call_status lax srv client call_id status metadata w =
     (let update_data = [(''status'', PStr status)];
          update_data = (if truthy_dict metadata
                         then dict_set update_data ''metadata'' (opt PDict metadata)
                         else update_data)
      in and_then
           (make_request srv client ''PATCH'' (''/v1/calls/'' @ call_id @ ''/status'')
              (Some (PDict update_data)) None w)
           (construct (validate_Call lax)))"

text \<open>
  \<open>[TimelineEvent(**event) for event in data.get("timeline", [])]\<close>: \<open>data.get\<close> raises
  \<open>AttributeError\<close> unless \<open>data\<close> is a dictionary; iterating a number, a boolean or \<open>None\<close>
  raises \<open>TypeError\<close>; iterating a string gives its characters and iterating a dictionary its
  keys, each of them a string, on which \<open>**\<close> raises \<open>TypeError\<close>.
\<close>

fun timeline_events :: "pyval list \<Rightarrow> error + TimelineEvent list" where
  "timeline_events [] = Inr []"
| "timeline_events (event # events) =
     (case construct validate_TimelineEvent event of
        Inl e \<Rightarrow> Inl e
      | Inr x \<Rightarrow> (case timeline_events events of Inl e \<Rightarrow> Inl e | Inr xs \<Rightarrow> Inr (x # xs)))"

definition decode_timeline :: "pyval \<Rightarrow> error + TimelineEvent list" where
  "decode_timeline data =
     (case data of
        PDict kvs \<Rightarrow>
          (case map_of kvs ''timeline'' of
             None \<Rightarrow> timeline_events []
           | Some (PList events) \<Rightarrow> timeline_events events
           | Some (PStr s) \<Rightarrow> timeline_events (map (\<lambda>c. PStr [c]) s)
           | Some (PDict d) \<Rightarrow> timeline_events (map PStr (keys d))
           | Some _ \<Rightarrow> Inl TypeError)
      | _ \<Rightarrow> Inl AttributeError)"

definition get_call_timeline ::
  "'s transport \<Rightarrow> InvortoClient \<Rightarrow> string \<Rightarrow> 's world \<Rightarrow> (error + TimelineEvent list) \<times> 's world" where
  "get_call_timeline srv client call_id w =
     and_then (make_request srv client ''GET'' (''/v1/calls/'' @ call_id @ ''/timeline'') None None w)
       decode_timeline"

definition get_call_artifacts ::
  "'s transport \<Rightarrow> InvortoClient \<Rightarrow> string \<Rightarrow> 's world \<Rightarrow> (error + CallArtifacts) \<times> 's world" where
  "get_call_artifacts srv client call_id w =
     and_then (make_request srv client ''GET'' (''/v1/calls/'' @ call_id @ ''/artifacts'') None None w)
       (construct validate_CallArtifacts)"

definition get_tenant_usage ::
  "'s transport \<Rightarrow> InvortoClient \<Rightarrow> string \<Rightarrow> string \<Rightarrow> 's world \<Rightarrow> (error + TenantUsage) \<times> 's world" where
  "get_tenant_usage srv client tenant period w =
     and_then
       (make_request srv client ''GET'' (''/v1/tenants/'' @ tenant @ ''/usage'') None
          (Some [(''period'', PStr period)]) w)
       (construct validate_TenantUsage)"

definition get_call_analytics ::
  "lax_rules \<Rightarrow> 's transport \<Rightarrow> InvortoClient \<Rightarrow> string \<Rightarrow> 's world
     \<Rightarrow> (error + CallAnalytics) \<times> 's world" where
  "get_call_analytics lax srv client call_id w =
     and_then (make_request srv client ''GET'' (''/v1/realtime/'' @ call_id @ ''/stats'') None None w)
       (construct (validate_CallAnalytics lax))"

definition health_check ::
  "'s transport \<Rightarrow> InvortoClient \<Rightarrow> 's world \<Rightarrow> (error + pyval) \<times> 's world" where
  "health_check srv client w = make_request srv client ''GET'' ''/health'' None None w"

text \<open>\<open>get_metrics\<close> calls \<open>session.get\<close> itself and returns the text of the response.\<close>

definition get_metrics ::
  "'s transport \<Rightarrow> InvortoClient \<Rightarrow> 's world \<Rightarrow> (error + string) \<times> 's world" where
  "get_metrics srv client w =
     (case session_request srv
             \<lparr>req_method = ''GET'', req_url = base_url client @ ''/metrics'',
              req_headers = session_headers client, req_json = None, req_params = None\<rparr> w of
        (None, w') \<Rightarrow> (Inl RequestException, w')
      | (Some r, w') \<Rightarrow>
          (case raise_for_status r of
             Some e \<Rightarrow> (Inl e, w')
           | None \<Rightarrow> (Inr (resp_text r), w')))"

text \<open>
  The two batch helpers are the same loop: \<open>results = []\<close>, then for each item in order the
  creation and \<open>results.append\<close>. An exception of a creation leaves the loop and the helper.
\<close>

fun create_each ::
  "('a \<Rightarrow> 'w \<Rightarrow> (error + 'b) \<times> 'w) \<Rightarrow> 'a list \<Rightarrow> 'b list \<Rightarrow> 'w \<Rightarrow> (error + 'b list) \<times> 'w" where
  "create_each create [] results w = (Inr results, w)"
| "create_each create (item # items) results w =
     (case create item w of
        (Inl e, w') \<Rightarrow> (Inl e, w')
      | (Inr r, w') \<Rightarrow> create_each create items (results @ [r]) w')"

definition create_multiple_agents ::
  "lax_rules \<Rightarrow> 's transport \<Rightarrow> InvortoClient \<Rightarrow> AgentConfig list \<Rightarrow> 's world
     \<Rightarrow> (error + Agent list) \<times> 's world" where
  "create_multiple_agents lax srv client configs w =
     create_each (create_agent lax srv client) configs [] w"

definition create_multiple_calls ::
  "'s transport \<Rightarrow> InvortoClient \<Rightarrow> CallOptions list \<Rightarrow> 's world
     \<Rightarrow> (error + pyval list) \<times> 's world" where
  "create_multiple_calls srv client call_options w =
     create_each (create_call srv client) call_options [] w"

text \<open>
  The operations that map to one request each, as one type, so that a statement can speak
  of every operation; \<open>perform\<close> calls the operation that a value names.
\<close>

datatype operation =
    CreateAgent AgentConfig
  | GetAgent string
  | ListAgents "ListOptions option"
  | UpdateAgent string pydict
  | DeleteAgent string
  | CreateCall CallOptions
  | GetCall string
  | ListCalls "CallListOptions option"
  | UpdateCallStatus string string "pydict option"
  | GetCallTimeline string
  | GetCallArtifacts string
  | GetTenantUsage string string
  | GetCallAnalytics string
  | HealthCheck
  | GetMetrics

datatype outcome =
    An_Agent Agent
  | A_Page PaginatedResponse
  | Raw pyval
  | A_Call Call
  | A_Timeline "TimelineEvent list"
  | Artifacts CallArtifacts
  | Usage TenantUsage
  | Analytics CallAnalytics
  | Metrics string

fun as_outcome :: "('a \<Rightarrow> outcome) \<Rightarrow> (error + 'a) \<times> 'w \<Rightarrow> (error + outcome) \<times> 'w" where
  "as_outcome f (Inl e, w) = (Inl e, w)"
| "as_outcome f (Inr x, w) = (Inr (f x), w)"

fun perform ::
  "lax_rules \<Rightarrow> 's transport \<Rightarrow> InvortoClient \<Rightarrow> operation \<Rightarrow> 's world
     \<Rightarrow> (error + outcome) \<times> 's world" where
  "perform lax srv client (CreateAgent config) w = as_outcome An_Agent (create_agent lax srv client config w)"
| "perform lax srv client (GetAgent agent_id) w = as_outcome An_Agent (get_agent lax srv client agent_id w)"
| "perform lax srv client (ListAgents options) w = as_outcome A_Page (list_agents srv client options w)"
| "perform lax srv client (UpdateAgent agent_id updates) w =
     as_outcome An_Agent (update_agent lax srv client agent_id updates w)"
| "perform lax srv client (DeleteAgent agent_id) w = as_outcome Raw (delete_agent srv client agent_id w)"
| "perform lax srv client (CreateCall options) w = as_outcome Raw (create_call srv client options w)"
| "perform lax srv client (GetCall call_id) w = as_outcome A_Call (get_call lax srv client call_id w)"
| "perform lax srv client (ListCalls options) w = as_outcome A_Page (list_calls srv client options w)"
| "perform lax srv client (UpdateCallStatus call_id status metadata) w =
     as_outcome A_Call (update_call_status lax srv client call_id status metadata w)"
| "perform lax srv client (GetCallTimeline call_id) w =
     as_outcome A_Timeline (get_call_timeline srv client call_id w)"
| "perform lax srv client (GetCallArtifacts call_id) w =
     as_outcome Artifacts (get_call_artifacts srv client call_id w)"
| "perform lax srv client (GetTenantUsage tenant period) w =
     as_outcome Usage (get_tenant_usage srv client tenant period w)"
| "perform lax srv client (GetCallAnalytics call_id) w =
     as_outcome Analytics (get_call_analytics lax srv client call_id w)"
| "perform lax srv client HealthCheck w = as_outcome Raw (health_check srv client w)"
| "perform lax srv client GetMetrics w = as_outcome Metrics (get_metrics srv client w)"

section \<open>Notions that the claims use\<close>

text \<open>\<open>s.endswith(p)\<close>.\<close>

definition endswith :: "string \<Rightarrow> string \<Rightarrow> bool" where
  "endswith s p = (length p \<le> length s \<and> drop (length s - length p) s = p)"

text \<open>
  The path of every operation, as section 6 of the specification lists the endpoints.
\<close>

fun endpoint :: "operation \<Rightarrow> string" where
  "endpoint (CreateAgent config) = ''/v1/agents''"
| "endpoint (GetAgent agent_id) = ''/v1/agents/'' @ agent_id"
| "endpoint (ListAgents options) = ''/v1/agents''"
| "endpoint (UpdateAgent agent_id updates) = ''/v1/agents/'' @ agent_id"
| "endpoint (DeleteAgent agent_id) = ''/v1/agents/'' @ agent_id"
| "endpoint (CreateCall options) = ''/v1/calls''"
| "endpoint (GetCall call_id) = ''/v1/calls/'' @ call_id"
| "endpoint (ListCalls options) = ''/v1/calls''"
| "endpoint (UpdateCallStatus call_id status metadata) = ''/v1/calls/'' @ call_id @ ''/status''"
| "endpoint (GetCallTimeline call_id) = ''/v1/calls/'' @ call_id @ ''/timeline''"
| "endpoint (GetCallArtifacts call_id) = ''/v1/calls/'' @ call_id @ ''/artifacts''"
| "endpoint (GetTenantUsage tenant period) = ''/v1/tenants/'' @ tenant @ ''/usage''"
| "endpoint (GetCallAnalytics call_id) = ''/v1/realtime/'' @ call_id @ ''/stats''"
| "endpoint HealthCheck = ''/health''"
| "endpoint GetMetrics = ''/metrics''"

text \<open>
  A JSON object does not match the entity schema of an operation: the class that the
  operation constructs from it does not validate. The timeline of \<open>get_call_timeline\<close> is
  the list of events under the key \<open>timeline\<close>, or no events where the key is missing: a
  body does not match where the key holds anything but a list of valid events.
  \<open>delete_agent\<close>, \<open>create_call\<close>, \<open>health_check\<close> and \<open>get_metrics\<close> construct no entity.
\<close>

definition valid_event :: "pyval \<Rightarrow> bool" where
  "valid_event p = (case p of PDict kvs \<Rightarrow> validate_TimelineEvent kvs \<noteq> None | _ \<Rightarrow> False)"

fun schema_rejects :: "lax_rules \<Rightarrow> operation \<Rightarrow> pydict \<Rightarrow> bool" where
  "schema_rejects lax (CreateAgent config) body = (validate_Agent lax body = None)"
| "schema_rejects lax (GetAgent agent_id) body = (validate_Agent lax body = None)"
| "schema_rejects lax (ListAgents options) body = (validate_PaginatedResponse body = None)"
| "schema_rejects lax (UpdateAgent agent_id updates) body = (validate_Agent lax body = None)"
| "schema_rejects lax (DeleteAgent agent_id) body = False"
| "schema_rejects lax (CreateCall options) body = False"
| "schema_rejects lax (GetCall call_id) body = (validate_Call lax body = None)"
| "schema_rejects lax (ListCalls options) body = (validate_PaginatedResponse body = None)"
| "schema_rejects lax (UpdateCallStatus call_id status metadata) body = (validate_Call lax body = None)"
| "schema_rejects lax (GetCallTimeline call_id) body =
     (case map_of body ''timeline'' of
        None \<Rightarrow> False
      | Some (PList events) \<Rightarrow> \<not> list_all valid_event events
      | Some other \<Rightarrow> True)"
| "schema_rejects lax (GetCallArtifacts call_id) body = (validate_CallArtifacts body = None)"
| "schema_rejects lax (GetTenantUsage tenant period) body = (validate_TenantUsage body = None)"
| "schema_rejects lax (GetCallAnalytics call_id) body = (validate_CallAnalytics lax body = None)"
| "schema_rejects lax HealthCheck body = False"
| "schema_rejects lax GetMetrics body = False"

text \<open>
  The one operation that reads a timeline, \<open>get_call_timeline\<close>, where every other
  constructs at most one entity from the whole body; the exception that an outcome is, if
  any; the first item of a timeline that
  is no valid event; and the failure of \<open>get_call_timeline\<close> on a body that is a JSON object:
  \<open>ValidationError\<close> where the value under \<open>timeline\<close> is a list and its first item that is
  no valid event is a JSON object, \<open>TypeError\<close> where that item is no object or the value is
  neither a list nor an empty string nor an empty object, and none otherwise.
\<close>

fun reads_timeline :: "operation \<Rightarrow> bool" where
  "reads_timeline (GetCallTimeline call_id) = True"
| "reads_timeline other = False"

fun failure :: "error + 'a \<Rightarrow> error option" where
  "failure (Inl e) = Some e"
| "failure (Inr x) = None"

fun first_invalid_event :: "pyval list \<Rightarrow> pyval option" where
  "first_invalid_event [] = None"
| "first_invalid_event (item # items) =
     (if valid_event item then first_invalid_event items else Some item)"

definition timeline_failure :: "pydict \<Rightarrow> error option" where
  "timeline_failure body =
     (case map_of body ''timeline'' of
        None \<Rightarrow> None
      | Some (PList events) \<Rightarrow>
          (case first_invalid_event events of
             None \<Rightarrow> None
           | Some (PDict item) \<Rightarrow> Some ValidationError
           | Some other \<Rightarrow> Some TypeError)
      | Some (PStr s) \<Rightarrow> if s = [] then None else Some TypeError
      | Some (PDict d) \<Rightarrow> if d = [] then None else Some TypeError
      | Some other \<Rightarrow> Some TypeError)"

text \<open>
  The service, in the state it has in the world \<open>w\<close>, answers every request with the
  response \<open>r\<close>. For concrete runs: a service without state that answers every request with
  the same response, lax rules that accept no value of another type, and the world before
  any request.
\<close>

definition answers :: "'s transport \<Rightarrow> 's world \<Rightarrow> response \<Rightarrow> bool" where
  "answers srv w r = (\<forall>req. fst (srv (remote w) req) = Some r)"

definition answering :: "response \<Rightarrow> unit transport" where
  "answering r s req = (Some r, s)"

definition no_lax :: lax_rules where
  "no_lax = \<lparr>lax_int = (\<lambda>p. None), lax_float = (\<lambda>p. None)\<rparr>"

definition fresh_world :: "unit world" where
  "fresh_world = \<lparr>sent = [], remote = ()\<rparr>"

text \<open>The request that one creation sends.\<close>

definition create_agent_request :: "InvortoClient \<Rightarrow> AgentConfig \<Rightarrow> request" where
  "create_agent_request client config =
     \<lparr>req_method = ''POST'', req_url = base_url client @ ''/v1/agents'',
      req_headers = session_headers client,
      req_json = Some (PDict (AgentConfig_model_dump config)), req_params = None\<rparr>"

definition create_call_request :: "InvortoClient \<Rightarrow> CallOptions \<Rightarrow> request" where
  "create_call_request client options =
     \<lparr>req_method = ''POST'', req_url = base_url client @ ''/v1/calls'',
      req_headers = session_headers client,
      req_json = Some (PDict (create_call_data options)), req_params = None\<rparr>"

text \<open>
  A server echo of a configuration: the payload of an agent whose \<open>config\<close> is the encoded
  mapping, unaltered.
\<close>

definition server_echo :: "AgentConfig \<Rightarrow> pydict" where
  "server_echo config =
     [(''id'', PStr ''agent-1''),
      (''name'', PStr (ac_name config)),
      (''config'', PDict (AgentConfig_model_dump config)),
      (''status'', PStr ''draft''),
      (''tenant_id'', PStr ''tenant-1''),
      (''created_at'', PStr ''2024-01-01T00:00:00Z''),
      (''updated_at'', PStr ''2024-01-01T00:00:00Z'')]"

text \<open>
  A configuration with every field set and the agent that its echo decodes to, a
  configuration with only the required fields set, options of a call, a client, and a
  service that counts the requests it has answered: it answers the first request with the
  echo of the full configuration and every later request with the status 500.
\<close>

definition full_config :: AgentConfig where
  "full_config =
     \<lparr>ac_name = ''Support'', ac_prompt = ''You are helpful.'', ac_voice = Some ''alloy'',
      ac_locale = Some ''en-IN'', ac_temperature = Some (1 / 2), ac_model = Some ''gpt-4o'',
      ac_max_tokens = Some 256, ac_system_prompt = Some ''Be brief.'',
      ac_tools = Some [[(''name'', PStr ''lookup'')]],
      ac_metadata = Some [(''team'', PStr ''a''), (''tier'', PNone)]\<rparr>"

definition bare_config :: AgentConfig where
  "bare_config =
     \<lparr>ac_name = ''Support'', ac_prompt = ''You are helpful.'', ac_voice = None,
      ac_locale = None, ac_temperature = None, ac_model = None, ac_max_tokens = None,
      ac_system_prompt = None, ac_tools = None, ac_metadata = None\<rparr>"

definition example_client :: InvortoClient where
  "example_client = InvortoClient_init ''key'' default_base_url None"

definition full_agent :: Agent where
  "full_agent =
     \<lparr>ag_id = ''agent-1'', ag_name = ''Support'', ag_config = full_config,
      ag_status = AgentStatus_DRAFT, ag_tenant_id = ''tenant-1'',
      ag_created_at = ''2024-01-01T00:00:00Z'', ag_updated_at = ''2024-01-01T00:00:00Z'',
      ag_stats = None\<rparr>"

definition outbound_call :: CallOptions where
  "outbound_call =
     \<lparr>co_agent_id = ''agent-1'', co_to = ''+919876543210'', co_from = Some ''+911234567890'',
      co_direction = Direction_OUTBOUND, co_metadata = None, co_recording = Some True,
      co_transcription = Some True\<rparr>"

definition echo_once :: "nat transport" where
  "echo_once n req =
     (Some (if n = 0
            then \<lparr>resp_status_code = 200, resp_json = Some (PDict (server_echo full_config)),
                  resp_text = []\<rparr>
            else \<lparr>resp_status_code = 500, resp_json = None, resp_text = []\<rparr>),
      Suc n)"

definition start :: "nat world" where
  "start = \<lparr>sent = [], remote = 0\<rparr>"

section \<open>Phone-number validation (C4)\<close>

lemma rmatch_Rep_Class:
  "set (rmatch (Rep 0 n (Class P)) (i, s)) =
     {(i + k, drop k s) | k. k \<le> n \<and> k \<le> length s \<and> list_all P (take k s)}"
proof (induction n arbitrary: i s)
  case 0
  show ?case by auto
next
  case (Suc n)
  show ?case
  proof (cases s)
    case Nil
    then show ?thesis by auto
  next
    case (Cons c cs)
    show ?thesis
    proof (cases "P c")
      case False
      have z: "k = 0" if "list_all P (take k s)" for k
        using that Cons False by (cases k) auto
      have "{(i + k, drop k s) | k. k \<le> Suc n \<and> k \<le> length s \<and> list_all P (take k s)} = {(i, s)}"
      proof (intro set_eqI iffI)
        fix x assume "x \<in> {(i + k, drop k s) | k. k \<le> Suc n \<and> k \<le> length s \<and> list_all P (take k s)}"
        then obtain k where "x = (i + k, drop k s)" "list_all P (take k s)" by blast
        then show "x \<in> {(i, s)}" using z [of k] by simp
      next
        fix x assume "x \<in> {(i, s)}"
        then have "x = (i + 0, drop 0 s) \<and> (0::nat) \<le> Suc n \<and> 0 \<le> length s \<and> list_all P (take 0 s)"
          by simp
        then show "x \<in> {(i + k, drop k s) | k. k \<le> Suc n \<and> k \<le> length s \<and> list_all P (take k s)}"
          by blast
      qed
      then show ?thesis using Cons False by simp
    next
      case True
      have "set (rmatch (Rep 0 (Suc n) (Class P)) (i, s)) =
              set (rmatch (Rep 0 n (Class P)) (Suc i, cs)) \<union> {(i, s)}"
        using Cons True by simp
      also have "\<dots> = {(Suc i + k, drop k cs) | k. k \<le> n \<and> k \<le> length cs \<and> list_all P (take k cs)} \<union> {(i, s)}"
        by (simp only: Suc.IH)
      also have "\<dots> = {(i + k, drop k s) | k. k \<le> Suc n \<and> k \<le> length s \<and> list_all P (take k s)}"
      proof (intro set_eqI iffI)
        fix x
        assume "x \<in> {(Suc i + k, drop k cs) | k. k \<le> n \<and> k \<le> length cs \<and> list_all P (take k cs)} \<union> {(i, s)}"
        then consider (a) k where "x = (Suc i + k, drop k cs)" "k \<le> n" "k \<le> length cs" "list_all P (take k cs)"
          | (b) "x = (i, s)" by auto
        then show "x \<in> {(i + k, drop k s) | k. k \<le> Suc n \<and> k \<le> length s \<and> list_all P (take k s)}"
        proof cases
          case a
          then have "x = (i + Suc k, drop (Suc k) s) \<and> Suc k \<le> Suc n \<and> Suc k \<le> length s \<and> list_all P (take (Suc k) s)"
            using Cons True by simp
          then show ?thesis by blast
        next
          case b
          then have "x = (i + 0, drop 0 s) \<and> (0::nat) \<le> Suc n \<and> 0 \<le> length s \<and> list_all P (take 0 s)"
            by simp
          then show ?thesis by blast
        qed
      next
        fix x
        assume "x \<in> {(i + k, drop k s) | k. k \<le> Suc n \<and> k \<le> length s \<and> list_all P (take k s)}"
        then obtain k where k: "x = (i + k, drop k s)" "k \<le> Suc n" "k \<le> length s" "list_all P (take k s)"
          by blast
        show "x \<in> {(Suc i + k, drop k cs) | k. k \<le> n \<and> k \<le> length cs \<and> list_all P (take k cs)} \<union> {(i, s)}"
        proof (cases k)
          case 0
          then show ?thesis using k by simp
        next
          case (Suc j)
          then have "x = (Suc i + j, drop j cs) \<and> j \<le> n \<and> j \<le> length cs \<and> list_all P (take j cs)"
            using k Cons by simp
          then show ?thesis by blast
        qed
      qed
      finally show ?thesis .
    qed
  qed
qed

lemma concat_map_nonempty: "(concat (map f xs) \<noteq> []) = (\<exists>x \<in> set xs. f x \<noteq> [])"
  by (induction xs) auto

lemma rmatch_Eol_nonempty: "(rmatch Eol (j, t) \<noteq> []) = (t = [] \<or> t = [0x0A])"
  by simp

lemma digits_then_end:
  assumes "0x0A \<notin> set s"
  shows "(rmatch (Cat (Rep 0 15 (Class D)) Eol) (i, s) \<noteq> []) =
           (list_all D s \<and> length s \<le> 15)"
proof -
  have nl: "drop k s \<noteq> [0x0A]" for k
    using assms by (metis in_set_dropD list.set_intros(1))
  have "(rmatch (Cat (Rep 0 15 (Class D)) Eol) (i, s) \<noteq> []) =
          (\<exists>st \<in> set (rmatch (Rep 0 15 (Class D)) (i, s)). rmatch Eol st \<noteq> [])"
    by (simp only: rmatch.simps concat_map_nonempty)
  also have "\<dots> = (\<exists>k. k \<le> 15 \<and> k \<le> length s \<and> list_all D (take k s) \<and> drop k s = [])"
  proof
    assume "\<exists>st \<in> set (rmatch (Rep 0 15 (Class D)) (i, s)). rmatch Eol st \<noteq> []"
    then obtain st where st: "st \<in> set (rmatch (Rep 0 15 (Class D)) (i, s))" "rmatch Eol st \<noteq> []"
      by blast
    from st(1) obtain k where k: "st = (i + k, drop k s)" "k \<le> 15" "k \<le> length s"
        "list_all D (take k s)"
      unfolding rmatch_Rep_Class by blast
    from st(2) k(1) have "drop k s = []"
      using nl [of k] by (simp only: rmatch_Eol_nonempty) simp
    with k show "\<exists>k. k \<le> 15 \<and> k \<le> length s \<and> list_all D (take k s) \<and> drop k s = []"
      by blast
  next
    assume "\<exists>k. k \<le> 15 \<and> k \<le> length s \<and> list_all D (take k s) \<and> drop k s = []"
    then obtain k where k: "k \<le> 15" "k \<le> length s" "list_all D (take k s)" "drop k s = []"
      by blast
    then have "(i + k, drop k s) \<in> set (rmatch (Rep 0 15 (Class D)) (i, s))"
      unfolding rmatch_Rep_Class by blast
    moreover have "rmatch Eol (i + k, drop k s) \<noteq> []"
      using k(4) by (simp only: rmatch_Eol_nonempty) simp
    ultimately show "\<exists>st \<in> set (rmatch (Rep 0 15 (Class D)) (i, s)). rmatch Eol st \<noteq> []"
      by blast
  qed
  also have "\<dots> = (list_all D s \<and> length s \<le> 15)"
  proof
    assume "\<exists>k. k \<le> 15 \<and> k \<le> length s \<and> list_all D (take k s) \<and> drop k s = []"
    then obtain k where k: "k \<le> 15" "k \<le> length s" "list_all D (take k s)" "drop k s = []"
      by blast
    from k(2,4) have "k = length s" by simp
    with k show "list_all D s \<and> length s \<le> 15" by simp
  next
    assume "list_all D s \<and> length s \<le> 15"
    then have "length s \<le> 15 \<and> length s \<le> length s \<and> list_all D (take (length s) s)
        \<and> drop (length s) s = []" by simp
    then show "\<exists>k. k \<le> 15 \<and> k \<le> length s \<and> list_all D (take k s) \<and> drop k s = []"
      by blast
  qed
  finally show ?thesis .
qed

lemmas char_defs = cp_def ustr_def in_range_def is_space_def ascii_digit_def is_digit_def
  separator_def spec_separator_def

lemma plus_not_first_digit: "\<not> in_range (cp CHR ''1'') (cp CHR ''9'') (cp CHR ''+'')"
  by (simp add: in_range_def cp_def)

lemma re_match_phone_regex:
  assumes "0x0A \<notin> set s"
  shows "re_match (phone_regex other) s = phone_shape (is_digit other) s"
proof (cases s)
  case Nil
  then show ?thesis
    by (simp add: re_match_def phone_regex_def phone_shape_def startswith_def ustr_def)
next
  case (Cons c cs)
  have cs: "0x0A \<notin> set cs" using assms Cons by simp
  show ?thesis
  proof (cases "c = cp CHR ''+''")
    case True
    show ?thesis
    proof (cases cs)
      case Nil
      then show ?thesis using Cons True plus_not_first_digit
        by (simp add: re_match_def phone_regex_def phone_shape_def startswith_def
            slice_from_1_def ustr_def)
    next
      case (Cons d ds)
      have ds: "0x0A \<notin> set ds" using cs Cons by simp
      show ?thesis
        using \<open>s = c # cs\<close> True Cons plus_not_first_digit
          digits_then_end [OF ds, of "is_digit other" "Suc (Suc 0)"]
        by (simp add: re_match_def phone_regex_def phone_shape_def startswith_def
            slice_from_1_def ustr_def del: rmatch.simps(5,6,7)
            add: rmatch.simps(7) [of "Class _"] rmatch.simps(7) [of "Bol"] rmatch.simps(7) [of "Opt _"])
    qed
  next
    case False
    show ?thesis using Cons False digits_then_end [OF cs, of "is_digit other" "Suc 0"]
      by (simp add: re_match_def phone_regex_def phone_shape_def startswith_def
          slice_from_1_def ustr_def del: rmatch.simps(5,6,7)
          add: rmatch.simps(7) [of "Class _"] rmatch.simps(7) [of "Bol"] rmatch.simps(7) [of "Opt _"])
  qed
qed

lemma no_newline_cleaned: "0x0A \<notin> set (re_sub_class separator s)"
  by (simp add: re_sub_class_def separator_def is_space_def)

text \<open>
  C4. Amended: for every input string, \<open>validate_phone_number\<close> returns true exactly when the
  string, after removing every whitespace character (the class \<open>\s\<close>, not only the space),
  hyphens and parentheses, consists of an optional leading \<open>+\<close>, a first digit in 1 to 9 and
  up to 15 further decimal digits, where a further digit is any Unicode decimal digit (the
  class \<open>\d\<close>), not only 0 to 9. It returns true for \<open>+919876543210\<close> and
  \<open>(987) 654-3210\<close> and false for \<open>abc123\<close>. The newline that \<open>$\<close> tolerates at the end
  of a string cannot occur: it is whitespace and has been removed.
\<close>

theorem validate_phone_number_shape:
  "validate_phone_number other s = phone_shape (is_digit other) (re_sub_class separator s)
   \<and> validate_phone_number other (ustr ''+919876543210'')
   \<and> validate_phone_number other (ustr ''(987) 654-3210'')
   \<and> \<not> validate_phone_number other (ustr ''abc123'')"
proof -
  have g: "validate_phone_number other s = phone_shape (is_digit other) (re_sub_class separator s)"
    for s
    by (simp add: validate_phone_number_def re_match_phone_regex [OF no_newline_cleaned])
  have a: "re_sub_class separator (ustr ''+919876543210'') = ustr ''+919876543210''"
    and b: "re_sub_class separator (ustr ''(987) 654-3210'') = ustr ''9876543210''"
    and c: "re_sub_class separator (ustr ''abc123'') = ustr ''abc123''"
    by (simp_all add: re_sub_class_def char_defs)
  have a': "phone_shape (is_digit other) (ustr ''+919876543210'')"
    and b': "phone_shape (is_digit other) (ustr ''9876543210'')"
    and c': "\<not> phone_shape (is_digit other) (ustr ''abc123'')"
    by (simp_all add: phone_shape_def startswith_def slice_from_1_def char_defs)
  show ?thesis using g a b c a' b' c' by simp
qed

text \<open>
  The claim as stated, with spaces removed and the digits 0 to 9, fails at the digit 1
  followed by the Arabic-Indic digits two and three, and at the digits 1 and 2 with a tab
  between them: the code accepts both.
\<close>

theorem validate_phone_number_counterexample:
  "validate_phone_number no_other_digits (ustr ''1'' @ [0x662, 0x663])
   \<and> \<not> spec_validate_phone_number (ustr ''1'' @ [0x662, 0x663])
   \<and> validate_phone_number no_other_digits (ustr ''1'' @ [0x09] @ ustr ''2'')
   \<and> \<not> spec_validate_phone_number (ustr ''1'' @ [0x09] @ ustr ''2'')"
proof -
  have g: "validate_phone_number other s = phone_shape (is_digit other) (re_sub_class separator s)"
    for other s
    by (simp add: validate_phone_number_def re_match_phone_regex [OF no_newline_cleaned])
  have a: "re_sub_class separator (ustr ''1'' @ [0x662, 0x663]) = ustr ''1'' @ [0x662, 0x663]"
    and b: "re_sub_class separator (ustr ''1'' @ [0x09] @ ustr ''2'') = ustr ''12''"
    and c: "re_sub_class spec_separator (ustr ''1'' @ [0x662, 0x663]) = ustr ''1'' @ [0x662, 0x663]"
    and d: "re_sub_class spec_separator (ustr ''1'' @ [0x09] @ ustr ''2'') = ustr ''1'' @ [0x09] @ ustr ''2''"
    by (simp_all add: re_sub_class_def char_defs)
  have a': "phone_shape (is_digit no_other_digits) (ustr ''1'' @ [0x662, 0x663])"
    and b': "phone_shape (is_digit no_other_digits) (ustr ''12'')"
    and c': "\<not> phone_shape ascii_digit (ustr ''1'' @ [0x662, 0x663])"
    and d': "\<not> phone_shape ascii_digit (ustr ''1'' @ [0x09] @ ustr ''2'')"
    by (simp_all add: phone_shape_def startswith_def slice_from_1_def char_defs)
  show ?thesis using a b c d a' b' c' d' by (simp add: g spec_validate_phone_number_def)
qed

section \<open>Phone-number normalisation (C3)\<close>

text \<open>
  C3. The claim, as stated, asks for the third rule to test for the digits of the configured
  country code and for the third and fourth rules to test for digits. The code tests for the
  literal \<open>91\<close> with a length of 12, and for a length of 10, with no test for digits anywhere.
  Amended: for every input string and every country code, with \<open>cleaned\<close> the input without
  whitespace, hyphens and parentheses: a \<open>cleaned\<close> that starts with \<open>+\<close> is returned (stripped);
  otherwise a leading \<open>0\<close> is replaced by the country code; otherwise a \<open>cleaned\<close> of exactly
  12 characters that starts with \<open>91\<close> gets \<open>+\<close> prepended, whatever the country code;
  otherwise a \<open>cleaned\<close> of exactly 10 characters, digits or not, gets the country code
  prepended; and every other input is returned as it was given. The five examples of the claim
  hold.
\<close>

theorem format_phone_number_precedence:
  assumes "cleaned = re_sub_class separator phone_number"
  shows "(startswith cleaned (ustr ''+'') \<longrightarrow> format_phone_number phone_number cc = cleaned)
    \<and> (\<not> startswith cleaned (ustr ''+'') \<and> startswith cleaned (ustr ''0'') \<longrightarrow>
         format_phone_number phone_number cc = cc @ slice_from_1 cleaned)
    \<and> (\<not> startswith cleaned (ustr ''+'') \<and> \<not> startswith cleaned (ustr ''0'')
         \<and> startswith cleaned (ustr ''91'') \<and> length cleaned = 12 \<longrightarrow>
         format_phone_number phone_number cc = ustr ''+'' @ cleaned)
    \<and> (\<not> startswith cleaned (ustr ''+'') \<and> \<not> startswith cleaned (ustr ''0'')
         \<and> length cleaned = 10 \<longrightarrow>
         format_phone_number phone_number cc = cc @ cleaned)
    \<and> (\<not> startswith cleaned (ustr ''+'') \<and> \<not> startswith cleaned (ustr ''0'')
         \<and> \<not> (startswith cleaned (ustr ''91'') \<and> length cleaned = 12)
         \<and> length cleaned \<noteq> 10 \<longrightarrow>
         format_phone_number phone_number cc = phone_number)
    \<and> format_phone_number (ustr ''+919876543210'') (ustr ''+91'') = ustr ''+919876543210''
    \<and> format_phone_number (ustr ''09876543210'') (ustr ''+91'') = ustr ''+919876543210''
    \<and> format_phone_number (ustr ''919876543210'') (ustr ''+91'') = ustr ''+919876543210''
    \<and> format_phone_number (ustr ''9876543210'') (ustr ''+91'') = ustr ''+919876543210''
    \<and> format_phone_number (ustr ''123'') (ustr ''+91'') = ustr ''123''"
proof -
  have rules: "(startswith cleaned (ustr ''+'') \<longrightarrow> format_phone_number phone_number cc = cleaned)
    \<and> (\<not> startswith cleaned (ustr ''+'') \<and> startswith cleaned (ustr ''0'') \<longrightarrow>
         format_phone_number phone_number cc = cc @ slice_from_1 cleaned)
    \<and> (\<not> startswith cleaned (ustr ''+'') \<and> \<not> startswith cleaned (ustr ''0'')
         \<and> startswith cleaned (ustr ''91'') \<and> length cleaned = 12 \<longrightarrow>
         format_phone_number phone_number cc = ustr ''+'' @ cleaned)
    \<and> (\<not> startswith cleaned (ustr ''+'') \<and> \<not> startswith cleaned (ustr ''0'')
         \<and> length cleaned = 10 \<longrightarrow>
         format_phone_number phone_number cc = cc @ cleaned)
    \<and> (\<not> startswith cleaned (ustr ''+'') \<and> \<not> startswith cleaned (ustr ''0'')
         \<and> \<not> (startswith cleaned (ustr ''91'') \<and> length cleaned = 12)
         \<and> length cleaned \<noteq> 10 \<longrightarrow>
         format_phone_number phone_number cc = phone_number)"
    using assms by (simp add: format_phone_number_def Let_def)
  have examples: "format_phone_number (ustr ''+919876543210'') (ustr ''+91'') = ustr ''+919876543210''
    \<and> format_phone_number (ustr ''09876543210'') (ustr ''+91'') = ustr ''+919876543210''
    \<and> format_phone_number (ustr ''919876543210'') (ustr ''+91'') = ustr ''+919876543210''
    \<and> format_phone_number (ustr ''9876543210'') (ustr ''+91'') = ustr ''+919876543210''
    \<and> format_phone_number (ustr ''123'') (ustr ''+91'') = ustr ''123''"
    by (simp add: format_phone_number_def re_sub_class_def startswith_def slice_from_1_def
        char_defs)
  show ?thesis using rules examples by simp
qed

text \<open>
  Each rule at an input with separators: the rule for \<open>+\<close>, the rule for a leading \<open>0\<close>, the
  rule for \<open>91\<close> with the country code \<open>+1\<close>, the rule for 10 characters, and the last rule.
\<close>

theorem format_phone_number_precedence_witness:
  "format_phone_number (ustr ''+91 98765-43210'') (ustr ''+1'') = ustr ''+919876543210''
   \<and> format_phone_number (ustr ''098765 43210'') (ustr ''+91'') = ustr ''+919876543210''
   \<and> format_phone_number (ustr ''91 98765 43210'') (ustr ''+1'') = ustr ''+919876543210''
   \<and> format_phone_number (ustr ''(202) 555-0123'') (ustr ''+1'') = ustr ''+12025550123''
   \<and> format_phone_number (ustr ''1 2 3'') (ustr ''+1'') = ustr ''1 2 3''"
proof -
  have c: "ustr ''+919876543210'' = re_sub_class separator (ustr ''+91 98765-43210'')"
      "ustr ''09876543210'' = re_sub_class separator (ustr ''098765 43210'')"
      "ustr ''919876543210'' = re_sub_class separator (ustr ''91 98765 43210'')"
      "ustr ''2025550123'' = re_sub_class separator (ustr ''(202) 555-0123'')"
      "ustr ''123'' = re_sub_class separator (ustr ''1 2 3'')"
    by (simp_all add: re_sub_class_def char_defs)
  show ?thesis
    using format_phone_number_precedence [OF c(1), of "ustr ''+1''"]
      format_phone_number_precedence [OF c(2), of "ustr ''+91''"]
      format_phone_number_precedence [OF c(3), of "ustr ''+1''"]
      format_phone_number_precedence [OF c(4), of "ustr ''+1''"]
      format_phone_number_precedence [OF c(5), of "ustr ''+1''"]
    by (simp add: startswith_def slice_from_1_def ustr_def cp_def)
qed

text \<open>
  The claim as stated fails at two inputs without separators. Ten letters are not ten digits,
  so the claim returns them unchanged and the code prepends the country code. With the country
  code \<open>+1\<close>, the digit 1 followed by ten digits is the country-code digits followed by ten
  digits, so the claim prepends \<open>+\<close> and the code returns the input unchanged.
\<close>

theorem format_phone_number_counterexample:
  "format_phone_number (ustr ''abcdefghij'') (ustr ''+91'') = ustr ''+91abcdefghij''
   \<and> spec_format_phone_number (ustr ''abcdefghij'') (ustr ''+91'') = ustr ''abcdefghij''
   \<and> format_phone_number (ustr ''12345678901'') (ustr ''+1'') = ustr ''12345678901''
   \<and> spec_format_phone_number (ustr ''12345678901'') (ustr ''+1'') = ustr ''+12345678901''"
  by (simp add: format_phone_number_def spec_format_phone_number_def country_code_digits_def
      re_sub_class_def startswith_def slice_from_1_def char_defs)

section \<open>Every operation sends one request\<close>

lemma make_request_sent:
  "sent (snd (make_request srv client m ep json params w)) =
     sent w @ [\<lparr>req_method = m, req_url = base_url client @ ep,
                req_headers = session_headers client, req_json = json, req_params = params\<rparr>]"
  by (simp add: make_request_def session_request_def Let_def split: prod.splits option.splits)

lemma snd_and_then: "snd (and_then x f) = snd x"
  by (cases x; cases "fst x") auto

lemma snd_as_outcome: "snd (as_outcome f x) = snd x"
  by (cases x; cases "fst x") auto

lemma get_metrics_sent:
  "sent (snd (get_metrics srv client w)) =
     sent w @ [\<lparr>req_method = ''GET'', req_url = base_url client @ ''/metrics'',
                req_headers = session_headers client, req_json = None, req_params = None\<rparr>]"
  by (simp add: get_metrics_def session_request_def split: prod.splits option.splits)

lemma perform_urls:
  "map req_url (sent (snd (perform lax srv client op w))) =
     map req_url (sent w) @ [base_url client @ endpoint op]"
  by (cases op)
    (simp_all add: snd_as_outcome snd_and_then make_request_sent get_metrics_sent Let_def
      create_agent_def get_agent_def list_agents_def update_agent_def delete_agent_def
      create_call_def get_call_def list_calls_def update_call_status_def get_call_timeline_def
      get_call_artifacts_def get_tenant_usage_def get_call_analytics_def health_check_def)

section \<open>The wire name of the \<open>from\<close> field (C1)\<close>

text \<open>A lookup in a dump is the lookup in the fields, unless the value is \<open>None\<close>.\<close>

lemma map_of_exclude_none:
  "distinct (map fst d) \<Longrightarrow>
     map_of (exclude_none d) k =
       (case map_of d k of None \<Rightarrow> None | Some v \<Rightarrow> if v = PNone then None else Some v)"
proof (induction d)
  case Nil
  then show ?case by (simp add: exclude_none_def)
next
  case (Cons kv d)
  have ih: "map_of (exclude_none d) k =
       (case map_of d k of None \<Rightarrow> None | Some v \<Rightarrow> if v = PNone then None else Some v)"
    using Cons by simp
  show ?case
  proof (cases "fst kv = k")
    case False
    then show ?thesis using ih by (cases kv) (simp add: exclude_none_def)
  next
    case True
    then have "k \<notin> fst ` set d" using Cons.prems by auto
    then have "map_of d k = None" by (simp add: map_of_eq_None_iff)
    then have "map_of (exclude_none d) k = None" using ih by simp
    then show ?thesis using True by (cases kv) (simp add: exclude_none_def)
  qed
qed

text \<open>
  \<open>list_calls\<close> moves the value of a set \<open>from_\<close> field to the key \<open>from\<close>.
\<close>

lemma list_calls_params_renames_from:
  assumes "clo_from options = Some number"
  shows "map_of (list_calls_params (Some options)) ''from'' = Some (PStr number)
         \<and> \<not> dict_contains (list_calls_params (Some options)) ''from_''"
proof -
  have d: "distinct (keys (CallListOptions_fields options))"
    by (simp add: keys_def CallListOptions_fields_def ListOptions_fields_def)
  define params where "params = CallListOptions_model_dump options"
  have dp: "distinct (map fst params)"
    using d unfolding params_def CallListOptions_model_dump_def exclude_none_def keys_def
    by (rule distinct_map_filter)
  have "(''from_'', PStr number) \<in> set params"
    using assms
    by (simp add: params_def CallListOptions_model_dump_def exclude_none_def
        CallListOptions_fields_def)
  then have m: "map_of params ''from_'' = Some (PStr number)"
    using dp by simp
  have l: "list_calls_params (Some options) =
             dict_set (AList.delete ''from_'' params) ''from'' (PStr number)"
    using m by (simp add: list_calls_params_def Let_def dict_contains_def dict_pop_def params_def)
  show ?thesis
    unfolding l dict_set_def dict_contains_def
    by (simp add: update_conv' delete_conv')
qed

text \<open>
  \<open>create_call\<close> keeps the key \<open>from_\<close> whenever the field is set, and adds the key
  \<open>from\<close> unless the number is the empty string.
\<close>

lemma create_call_data_keeps_internal_name:
  assumes "co_from options = Some number"
  shows "map_of (create_call_data options) ''from_'' = Some (PStr number)
         \<and> (number \<noteq> [] \<longrightarrow> map_of (create_call_data options) ''from'' = Some (PStr number))
         \<and> (number = [] \<longrightarrow> \<not> dict_contains (create_call_data options) ''from'')"
proof -
  have d: "distinct (map fst (CallOptions_fields options))"
    by (simp add: CallOptions_fields_def)
  have l: "map_of (CallOptions_model_dump options) k =
      (case map_of (CallOptions_fields options) k of
         None \<Rightarrow> None | Some v \<Rightarrow> if v = PNone then None else Some v)" for k
    unfolding CallOptions_model_dump_def using d by (rule map_of_exclude_none)
  have a: "map_of (CallOptions_model_dump options) ''from_'' = Some (PStr number)"
    using assms by (simp add: l CallOptions_fields_def)
  have b: "map_of (CallOptions_model_dump options) ''from'' = None"
    by (simp add: l CallOptions_fields_def)
  show ?thesis
    using assms a b
    by (simp add: create_call_data_def Let_def dict_set_def dict_contains_def update_conv')
qed

text \<open>
  C1. The specification asks that a set \<open>from_\<close> field goes out under the wire name \<open>from\<close>
  and never under its internal name. \<open>list_calls\<close> does so. \<open>create_call\<close> adds the key
  \<open>from\<close> and leaves the key \<open>from_\<close> of the dump in place: for the options below, with
  \<open>from_\<close> set, the body of the request that is sent holds the number under both names.
\<close>

theorem create_call_sends_internal_name:
  "sent (snd (create_call srv client
       \<lparr>co_agent_id = ''agent-1'', co_to = ''+919876543210'', co_from = Some ''+911234567890'',
        co_direction = Direction_OUTBOUND, co_metadata = None, co_recording = Some True,
        co_transcription = Some True\<rparr> w)) =
     sent w @ [\<lparr>req_method = ''POST'', req_url = base_url client @ ''/v1/calls'',
                req_headers = session_headers client,
                req_json = Some (PDict
                  [(''agent_id'', PStr ''agent-1''), (''to'', PStr ''+919876543210''),
                   (''from_'', PStr ''+911234567890''), (''direction'', PStr ''outbound''),
                   (''recording'', PBool True), (''transcription'', PBool True),
                   (''from'', PStr ''+911234567890'')]),
                req_params = None\<rparr>]"
  by (simp add: create_call_def Let_def make_request_sent create_call_data_def
      CallOptions_model_dump_def CallOptions_fields_def exclude_none_def dict_set_def)


section \<open>The default query of the list operations (C2)\<close>

lemma default_dumps:
  "ListOptions_model_dump ListOptions_default =
     [(''page'', PInt 1), (''limit'', PInt 50), (''sort_order'', PStr ''desc'')]"
  "CallListOptions_model_dump CallListOptions_default =
     [(''page'', PInt 1), (''limit'', PInt 50), (''sort_order'', PStr ''desc'')]"
  by (simp_all add: ListOptions_default_def CallListOptions_default_def
      ListOptions_model_dump_def CallListOptions_model_dump_def
      ListOptions_fields_def CallListOptions_fields_def exclude_none_def)

lemma default_params:
  "list_agents_params None = [(''page'', PInt 1), (''limit'', PInt 50), (''sort_order'', PStr ''desc'')]"
  "list_calls_params None = [(''page'', PInt 1), (''limit'', PInt 50), (''sort_order'', PStr ''desc'')]"
  by (simp_all add: list_agents_params_def list_calls_params_def default_dumps dict_contains_def)

text \<open>
  C2. Amended: \<open>list_agents\<close> and \<open>list_calls\<close>, invoked with no options, send a query
  mapping with exactly the three keys \<open>page\<close>, \<open>limit\<close> and \<open>sort_order\<close>, with the values
  1, 50 and \<open>desc\<close>: \<open>sort_order\<close> has a default that is not \<open>None\<close>.
\<close>

theorem default_list_params:
  "sent (snd (list_agents srv client None w)) =
     sent w @ [\<lparr>req_method = ''GET'', req_url = base_url client @ ''/v1/agents'',
                req_headers = session_headers client, req_json = None,
                req_params = Some [(''page'', PInt 1), (''limit'', PInt 50),
                                   (''sort_order'', PStr ''desc'')]\<rparr>]
   \<and> sent (snd (list_calls srv client None w)) =
     sent w @ [\<lparr>req_method = ''GET'', req_url = base_url client @ ''/v1/calls'',
                req_headers = session_headers client, req_json = None,
                req_params = Some [(''page'', PInt 1), (''limit'', PInt 50),
                                   (''sort_order'', PStr ''desc'')]\<rparr>]
   \<and> keys (list_agents_params None) = [''page'', ''limit'', ''sort_order'']
   \<and> keys (list_calls_params None) = [''page'', ''limit'', ''sort_order'']"
  by (simp add: list_agents_def list_calls_def Let_def snd_and_then make_request_sent
      default_params keys_def)


text \<open>The keys of the default query are not the two keys of the claim.\<close>

theorem default_list_params_counterexample:
  "set (keys (list_agents_params None)) \<noteq> {''page'', ''limit''}
   \<and> set (keys (list_calls_params None)) \<noteq> {''page'', ''limit''}"
proof -
  have "''sort_order'' \<in> set (keys (list_agents_params None))"
       "''sort_order'' \<in> set (keys (list_calls_params None))"
    by (simp_all add: default_params keys_def)
  moreover have "''sort_order'' \<notin> {''page'', ''limit''}" by simp
  ultimately show ?thesis by metis
qed

section \<open>Absent fields are omitted (C6)\<close>

lemma values_exclude_none: "PNone \<notin> set (dict_values (exclude_none d))"
  by (auto simp: dict_values_def exclude_none_def)

lemma values_dict_set: "set (dict_values (dict_set d k v)) \<subseteq> insert v (set (dict_values d))"
  unfolding dict_values_def dict_set_def
  by (induction d) auto

lemma values_delete: "set (dict_values (AList.delete k d)) \<subseteq> set (dict_values d)"
  unfolding dict_values_def by (induction d) auto

lemma map_of_value: "map_of d k = Some v \<Longrightarrow> v \<in> set (dict_values d)"
  unfolding dict_values_def by (metis image_eqI list.set_map map_of_SomeD snd_conv)

lemma create_call_data_no_none: "PNone \<notin> set (dict_values (create_call_data options))"
proof (cases "co_from options")
  case None
  then show ?thesis
    by (simp add: create_call_data_def CallOptions_model_dump_def values_exclude_none)
next
  case (Some s)
  have "PNone \<notin> insert (PStr s) (set (dict_values (CallOptions_model_dump options)))"
    by (simp add: CallOptions_model_dump_def values_exclude_none)
  then have "PNone \<notin> set (dict_values (dict_set (CallOptions_model_dump options) ''from'' (PStr s)))"
    using values_dict_set by blast
  then show ?thesis using Some
    by (simp add: create_call_data_def Let_def CallOptions_model_dump_def values_exclude_none)
qed

lemma list_calls_params_no_none: "PNone \<notin> set (dict_values (list_calls_params options))"
proof -
  define given where "given = (case options of None \<Rightarrow> CallListOptions_default | Some g \<Rightarrow> g)"
  define params where "params = CallListOptions_model_dump given"
  have p: "PNone \<notin> set (dict_values params)"
    by (simp add: params_def CallListOptions_model_dump_def values_exclude_none)
  show ?thesis
  proof (cases "map_of params ''from_''")
    case None
    then show ?thesis using p
      by (simp add: list_calls_params_def Let_def dict_contains_def params_def given_def)
  next
    case (Some v)
    have v: "v \<noteq> PNone" using map_of_value [OF Some] p by auto
    have "PNone \<notin> set (dict_values (AList.delete ''from_'' params))"
      using p values_delete by blast
    then have "PNone \<notin> insert v (set (dict_values (AList.delete ''from_'' params)))"
      using v by simp
    then have "PNone \<notin> set (dict_values (dict_set (AList.delete ''from_'' params) ''from'' v))"
      using values_dict_set by blast
    then show ?thesis using Some
      by (simp add: list_calls_params_def Let_def dict_contains_def dict_pop_def params_def given_def)
  qed
qed

lemma AgentConfig_dump_lookup:
  "map_of (AgentConfig_model_dump c) k =
     (case map_of (AgentConfig_fields c) k of
        None \<Rightarrow> None | Some v \<Rightarrow> if v = PNone then None else Some v)"
  unfolding AgentConfig_model_dump_def
  by (rule map_of_exclude_none) (simp add: AgentConfig_fields_def)

lemma CallOptions_dump_lookup:
  "map_of (CallOptions_model_dump c) k =
     (case map_of (CallOptions_fields c) k of
        None \<Rightarrow> None | Some v \<Rightarrow> if v = PNone then None else Some v)"
  unfolding CallOptions_model_dump_def
  by (rule map_of_exclude_none) (simp add: CallOptions_fields_def)

lemma ListOptions_dump_lookup:
  "map_of (ListOptions_model_dump c) k =
     (case map_of (ListOptions_fields c) k of
        None \<Rightarrow> None | Some v \<Rightarrow> if v = PNone then None else Some v)"
  unfolding ListOptions_model_dump_def
  by (rule map_of_exclude_none) (simp add: ListOptions_fields_def)

lemma CallListOptions_dump_lookup:
  "map_of (CallListOptions_model_dump c) k =
     (case map_of (CallListOptions_fields c) k of
        None \<Rightarrow> None | Some v \<Rightarrow> if v = PNone then None else Some v)"
  unfolding CallListOptions_model_dump_def
  by (rule map_of_exclude_none) (simp add: CallListOptions_fields_def ListOptions_fields_def)

lemma opt_lookup:
  "(if opt f x = PNone then None else Some (opt f x)) = map_option f x" if "\<And>y. f y \<noteq> PNone"
  using that by (cases x) simp_all

lemma AgentConfig_keys:
  "map_of (AgentConfig_model_dump c) ''voice'' = map_option PStr (ac_voice c)"
  "map_of (AgentConfig_model_dump c) ''locale'' = map_option PStr (ac_locale c)"
  "map_of (AgentConfig_model_dump c) ''temperature'' = map_option PFloat (ac_temperature c)"
  "map_of (AgentConfig_model_dump c) ''model'' = map_option PStr (ac_model c)"
  "map_of (AgentConfig_model_dump c) ''max_tokens'' = map_option PInt (ac_max_tokens c)"
  "map_of (AgentConfig_model_dump c) ''system_prompt'' = map_option PStr (ac_system_prompt c)"
  "map_of (AgentConfig_model_dump c) ''tools'' =
     map_option (\<lambda>ts. PList (map PDict ts)) (ac_tools c)"
  "map_of (AgentConfig_model_dump c) ''metadata'' = map_option PDict (ac_metadata c)"
  by (simp_all add: AgentConfig_dump_lookup AgentConfig_fields_def opt_lookup)

lemma create_call_keys:
  "map_of (create_call_data c) ''metadata'' = map_option PDict (co_metadata c)"
  "map_of (create_call_data c) ''recording'' = map_option PBool (co_recording c)"
  "map_of (create_call_data c) ''transcription'' = map_option PBool (co_transcription c)"
  by (simp_all add: create_call_data_def Let_def dict_set_def update_conv'
      CallOptions_dump_lookup CallOptions_fields_def opt_lookup)

lemma list_agents_keys:
  "map_of (list_agents_params (Some c)) ''page'' = map_option PInt (lo_page c)"
  "map_of (list_agents_params (Some c)) ''limit'' = map_option PInt (lo_limit c)"
  "map_of (list_agents_params (Some c)) ''search'' = map_option PStr (lo_search c)"
  "map_of (list_agents_params (Some c)) ''status'' = map_option PStr (lo_status c)"
  "map_of (list_agents_params (Some c)) ''sort_by'' = map_option PStr (lo_sort_by c)"
  "map_of (list_agents_params (Some c)) ''sort_order'' = map_option PStr (lo_sort_order c)"
  by (simp_all add: list_agents_params_def ListOptions_dump_lookup ListOptions_fields_def
      opt_lookup)

lemma list_calls_params_lookup:
  "map_of (list_calls_params (Some c)) k =
     (if k = ''from'' then map_of (CallListOptions_model_dump c) ''from_''
      else if k = ''from_'' then None
      else map_of (CallListOptions_model_dump c) k)"
proof (cases "map_of (CallListOptions_model_dump c) ''from_''")
  case None
  have "map_of (CallListOptions_model_dump c) ''from'' = None"
    by (simp add: CallListOptions_dump_lookup CallListOptions_fields_def ListOptions_fields_def)
  then show ?thesis using None
    by (simp add: list_calls_params_def Let_def dict_contains_def)
next
  case (Some v)
  then show ?thesis
    by (simp add: list_calls_params_def Let_def dict_contains_def dict_pop_def dict_set_def
        update_conv' delete_conv')
qed

lemma list_calls_keys:
  "map_of (list_calls_params (Some c)) ''page'' = map_option PInt (lo_page c)"
  "map_of (list_calls_params (Some c)) ''limit'' = map_option PInt (lo_limit c)"
  "map_of (list_calls_params (Some c)) ''search'' = map_option PStr (lo_search c)"
  "map_of (list_calls_params (Some c)) ''status'' = map_option PStr (lo_status c)"
  "map_of (list_calls_params (Some c)) ''sort_by'' = map_option PStr (lo_sort_by c)"
  "map_of (list_calls_params (Some c)) ''sort_order'' = map_option PStr (lo_sort_order c)"
  "map_of (list_calls_params (Some c)) ''agent_id'' = map_option PStr (clo_agent_id c)"
  "map_of (list_calls_params (Some c)) ''from'' = map_option PStr (clo_from c)"
  "map_of (list_calls_params (Some c)) ''to'' = map_option PStr (clo_to c)"
  by (simp_all add: list_calls_params_lookup CallListOptions_dump_lookup
      CallListOptions_fields_def ListOptions_fields_def opt_lookup)

text \<open>
  C6. Amended: for every \<open>AgentConfig\<close>, \<open>CallOptions\<close> and list options, no key of the body
  of \<open>create_agent\<close>, of the body of \<open>create_call\<close>, or of the query mapping of \<open>list_agents\<close>
  and \<open>list_calls\<close> has the value \<open>None\<close> at the top level; the key of an optional field
  occurs exactly when the field is set, and then with the value of the field, so that an
  absent field is sent neither as null nor as an empty string. A dictionary that the caller
  supplies as \<open>metadata\<close>, or in \<open>tools\<close>, is sent as it is, with the keys in it whose value
  is \<open>None\<close>. The keys \<open>from_\<close> and \<open>from\<close> of the body of \<open>create_call\<close> are the matter
  of C1.
\<close>

theorem encoders_omit_absent_fields:
  "PNone \<notin> set (dict_values (AgentConfig_model_dump config))
   \<and> PNone \<notin> set (dict_values (create_call_data call_options))
   \<and> PNone \<notin> set (dict_values (list_agents_params list_options))
   \<and> PNone \<notin> set (dict_values (list_calls_params call_list_options))
   \<and> map_of (AgentConfig_model_dump config) ''voice'' = map_option PStr (ac_voice config)
   \<and> map_of (AgentConfig_model_dump config) ''locale'' = map_option PStr (ac_locale config)
   \<and> map_of (AgentConfig_model_dump config) ''temperature'' =
       map_option PFloat (ac_temperature config)
   \<and> map_of (AgentConfig_model_dump config) ''model'' = map_option PStr (ac_model config)
   \<and> map_of (AgentConfig_model_dump config) ''max_tokens'' =
       map_option PInt (ac_max_tokens config)
   \<and> map_of (AgentConfig_model_dump config) ''system_prompt'' =
       map_option PStr (ac_system_prompt config)
   \<and> map_of (AgentConfig_model_dump config) ''tools'' =
       map_option (\<lambda>ts. PList (map PDict ts)) (ac_tools config)
   \<and> map_of (AgentConfig_model_dump config) ''metadata'' =
       map_option PDict (ac_metadata config)
   \<and> map_of (create_call_data call_options) ''metadata'' =
       map_option PDict (co_metadata call_options)
   \<and> map_of (create_call_data call_options) ''recording'' =
       map_option PBool (co_recording call_options)
   \<and> map_of (create_call_data call_options) ''transcription'' =
       map_option PBool (co_transcription call_options)
   \<and> map_of (list_agents_params (Some given)) ''page'' = map_option PInt (lo_page given)
   \<and> map_of (list_agents_params (Some given)) ''limit'' = map_option PInt (lo_limit given)
   \<and> map_of (list_agents_params (Some given)) ''search'' = map_option PStr (lo_search given)
   \<and> map_of (list_agents_params (Some given)) ''status'' = map_option PStr (lo_status given)
   \<and> map_of (list_agents_params (Some given)) ''sort_by'' = map_option PStr (lo_sort_by given)
   \<and> map_of (list_agents_params (Some given)) ''sort_order'' =
       map_option PStr (lo_sort_order given)
   \<and> map_of (list_calls_params (Some filters)) ''page'' = map_option PInt (lo_page filters)
   \<and> map_of (list_calls_params (Some filters)) ''limit'' = map_option PInt (lo_limit filters)
   \<and> map_of (list_calls_params (Some filters)) ''search'' = map_option PStr (lo_search filters)
   \<and> map_of (list_calls_params (Some filters)) ''status'' = map_option PStr (lo_status filters)
   \<and> map_of (list_calls_params (Some filters)) ''sort_by'' =
       map_option PStr (lo_sort_by filters)
   \<and> map_of (list_calls_params (Some filters)) ''sort_order'' =
       map_option PStr (lo_sort_order filters)
   \<and> map_of (list_calls_params (Some filters)) ''agent_id'' =
       map_option PStr (clo_agent_id filters)
   \<and> map_of (list_calls_params (Some filters)) ''from'' = map_option PStr (clo_from filters)
   \<and> map_of (list_calls_params (Some filters)) ''to'' = map_option PStr (clo_to filters)"
proof -
  have top: "PNone \<notin> set (dict_values (AgentConfig_model_dump config))
   \<and> PNone \<notin> set (dict_values (create_call_data call_options))
   \<and> PNone \<notin> set (dict_values (list_agents_params list_options))
   \<and> PNone \<notin> set (dict_values (list_calls_params call_list_options))"
    by (simp add: create_call_data_no_none list_calls_params_no_none AgentConfig_model_dump_def
        list_agents_params_def ListOptions_model_dump_def values_exclude_none Let_def)
  show ?thesis
    by (simp only: top AgentConfig_keys create_call_keys list_agents_keys list_calls_keys
        simp_thms)
qed

text \<open>
  The claim as stated fails inside the metadata: the body of \<open>create_agent\<close> for the full
  configuration holds the key \<open>tier\<close> with the value \<open>None\<close>.
\<close>

theorem encoders_omit_absent_fields_counterexample:
  "map_of (AgentConfig_model_dump full_config) ''metadata'' =
     Some (PDict [(''team'', PStr ''a''), (''tier'', PNone)])
   \<and> map_of [(''team'', PStr ''a''), (''tier'', PNone)] ''tier'' = Some PNone"
  by (simp add: AgentConfig_keys full_config_def)

section \<open>The base URL (C10)\<close>

lemma dropWhile_replicate: "\<exists>n. xs = replicate n c @ dropWhile (\<lambda>x. x = c) xs"
proof (induction xs)
  case Nil
  show ?case by simp
next
  case (Cons x xs)
  show ?case
  proof (cases "x = c")
    case True
    from Cons obtain n where "xs = replicate n c @ dropWhile (\<lambda>x. x = c) xs" by blast
    then have "x # xs = replicate (Suc n) c @ dropWhile (\<lambda>x. x = c) (x # xs)"
      using True by simp
    then show ?thesis by blast
  next
    case False
    then have "x # xs = replicate 0 c @ dropWhile (\<lambda>x. x = c) (x # xs)" by simp
    then show ?thesis by blast
  qed
qed

lemma rstrip_slash: "rstrip url ''/'' = rev (dropWhile (\<lambda>x. x = CHR ''/'') (rev url))"
  by (simp add: rstrip_def)

lemma rstrip_decompose: "\<exists>n. url = rstrip url ''/'' @ replicate n CHR ''/''"
proof -
  obtain n where n: "rev url = replicate n CHR ''/'' @ dropWhile (\<lambda>x. x = CHR ''/'') (rev url)"
    using dropWhile_replicate [of "rev url" "CHR ''/''"] by (elim exE)
  have "rev (rev url) = rev (replicate n CHR ''/'' @ dropWhile (\<lambda>x. x = CHR ''/'') (rev url))"
    using n by (rule arg_cong)
  then have "url = rstrip url ''/'' @ replicate n CHR ''/''"
    by (simp only: rev_rev_ident rev_append rev_replicate rstrip_slash)
  then show ?thesis by blast
qed

lemma rstrip_no_trailing: "\<not> endswith (rstrip url ''/'') ''/''"
proof
  assume e: "endswith (rstrip url ''/'') ''/''"
  define d where "d = dropWhile (\<lambda>x. x = CHR ''/'') (rev url)"
  have r: "rstrip url ''/'' = rev d" by (simp only: rstrip_slash d_def)
  show False
  proof (cases d)
    case Nil
    then show False using e r by (simp add: endswith_def)
  next
    case (Cons x xs)
    have "d \<noteq> []" using Cons by simp
    then have "\<not> (hd d = CHR ''/'')" unfolding d_def by (rule hd_dropWhile)
    then have x: "x \<noteq> CHR ''/''" using Cons by simp
    have "drop (length (rev d) - length ''/'') (rev d) = [x]" using Cons by simp
    then show False using e r x by (simp add: endswith_def)
  qed
qed

lemma endpoint_slash: "startswith (endpoint op) ''/'' \<and> \<not> startswith (endpoint op) ''//''"
  by (cases op) (simp_all add: startswith_def)

text \<open>
  C10. The client stores the base URL without its trailing slashes: the given URL is the
  stored one followed by slashes only, and the stored one does not end in a slash. The URL of
  the request of every operation is the stored base URL followed by the path of the operation,
  which begins with exactly one slash.
\<close>

theorem request_url_is_stripped_base_and_path:
  "base_url (InvortoClient_init key url tenant) = rstrip url ''/''
   \<and> (\<exists>n. url = rstrip url ''/'' @ replicate n CHR ''/'')
   \<and> \<not> endswith (rstrip url ''/'') ''/''
   \<and> map req_url (sent (snd (perform lax srv (InvortoClient_init key url tenant) op w))) =
       map req_url (sent w) @ [rstrip url ''/'' @ endpoint op]
   \<and> startswith (endpoint op) ''/'' \<and> \<not> startswith (endpoint op) ''//''"
proof -
  have b: "base_url (InvortoClient_init key url tenant) = rstrip url ''/''"
    by (simp add: InvortoClient_init_def Let_def)
  show ?thesis
    using b rstrip_decompose [of url] rstrip_no_trailing [of url] endpoint_slash [of op]
      perform_urls [of lax srv "InvortoClient_init key url tenant" op w]
    by simp
qed


section \<open>Transport errors and validation errors (C5)\<close>

lemma fst_and_then: "fst (and_then x f) = (case fst x of Inl e \<Rightarrow> Inl e | Inr d \<Rightarrow> f d)"
  by (cases x; cases "fst x") auto

lemma fst_as_outcome: "fst (as_outcome f x) = (case fst x of Inl e \<Rightarrow> Inl e | Inr d \<Rightarrow> Inr (f d))"
  by (cases x; cases "fst x") auto

lemma make_request_answered:
  assumes "answers srv w r"
  shows "fst (make_request srv client m ep json params w) =
           (if 400 \<le> resp_status_code r \<and> resp_status_code r < 600
            then Inl (HTTPError (resp_status_code r))
            else case resp_json r of None \<Rightarrow> Inl JSONDecodeError | Some data \<Rightarrow> Inr data)"
proof -
  obtain s' where "srv (remote w) \<lparr>req_method = m, req_url = base_url client @ ep,
      req_headers = session_headers client, req_json = json, req_params = params\<rparr> = (Some r, s')"
    using assms unfolding answers_def by (metis prod.collapse)
  then show ?thesis
    by (simp add: make_request_def session_request_def raise_for_status_def Let_def
        split: option.splits)
qed

lemma get_metrics_answered:
  assumes "answers srv w r"
  shows "fst (get_metrics srv client w) =
           (if 400 \<le> resp_status_code r \<and> resp_status_code r < 600
            then Inl (HTTPError (resp_status_code r))
            else Inr (resp_text r))"
proof -
  obtain s' where "srv (remote w) \<lparr>req_method = ''GET'', req_url = base_url client @ ''/metrics'',
      req_headers = session_headers client, req_json = None, req_params = None\<rparr> = (Some r, s')"
    using assms unfolding answers_def by (metis prod.collapse)
  then show ?thesis
    by (simp add: get_metrics_def session_request_def raise_for_status_def split: option.splits)
qed

lemma timeline_events_failure:
  "failure (timeline_events events) =
     (case first_invalid_event events of
        None \<Rightarrow> None
      | Some (PDict item) \<Rightarrow> Some ValidationError
      | Some other \<Rightarrow> Some TypeError)"
proof (induction events)
  case Nil
  show ?case by simp
next
  case (Cons ev events)
  show ?case
  proof (cases "valid_event ev")
    case True
    then obtain kvs x where ev: "ev = PDict kvs" "validate_TimelineEvent kvs = Some x"
      by (cases ev) (auto simp: valid_event_def)
    have "failure (timeline_events (ev # events)) = failure (timeline_events events)"
      using ev by (cases "timeline_events events") (simp_all add: construct_def)
    then show ?thesis using True Cons by simp
  next
    case False
    show ?thesis
    proof (cases ev)
      case (PDict kvs)
      then have "validate_TimelineEvent kvs = None" using False by (simp add: valid_event_def)
      then show ?thesis using False PDict by (simp add: construct_def)
    qed (use False in \<open>simp_all add: construct_def\<close>)
  qed
qed

lemma decode_timeline_failure: "failure (decode_timeline (PDict body)) = timeline_failure body"
proof (cases "map_of body ''timeline''")
  case None
  then show ?thesis by (simp add: decode_timeline_def timeline_failure_def)
next
  case (Some v)
  show ?thesis
  proof (cases v)
    case (PList events)
    then show ?thesis using Some
      by (simp add: decode_timeline_def timeline_failure_def timeline_events_failure)
  next
    case (PStr s)
    then show ?thesis using Some
      by (cases s) (simp_all add: decode_timeline_def timeline_failure_def construct_def)
  next
    case (PDict d)
    then show ?thesis using Some
      by (cases d) (simp_all add: decode_timeline_def timeline_failure_def construct_def keys_def)
  qed (use Some in \<open>simp_all add: decode_timeline_def timeline_failure_def\<close>)
qed

lemma failure_as_outcome: "failure (fst (as_outcome f x)) = failure (fst x)"
  by (cases x; cases "fst x") auto

lemmas op_defs = create_agent_def get_agent_def list_agents_def update_agent_def delete_agent_def
      create_call_def get_call_def list_calls_def update_call_status_def get_call_timeline_def
      get_call_artifacts_def get_tenant_usage_def get_call_analytics_def health_check_def

lemma perform_failure_status:
  assumes "answers srv w r"
    and "400 \<le> resp_status_code r \<and> resp_status_code r < 600"
  shows "fst (perform lax srv client op w) = Inl (HTTPError (resp_status_code r))"
  using assms(2)
  by (cases op)
    (simp_all add: fst_as_outcome fst_and_then make_request_answered [OF assms(1)]
      get_metrics_answered [OF assms(1)] Let_def op_defs)

lemma perform_schema_mismatch:
  assumes "answers srv w r"
    and "\<not> (400 \<le> resp_status_code r \<and> resp_status_code r < 600)"
    and "resp_json r = Some (PDict body)"
    and "schema_rejects lax op body"
    and "\<not> reads_timeline op"
  shows "fst (perform lax srv client op w) = Inl ValidationError"
  using assms(2,3,4,5)
  by (cases op)
    (simp_all add: fst_as_outcome fst_and_then make_request_answered [OF assms(1)] Let_def
      op_defs construct_def)

lemma perform_timeline:
  assumes "answers srv w r"
    and "\<not> (400 \<le> resp_status_code r \<and> resp_status_code r < 600)"
    and "resp_json r = Some (PDict body)"
  shows "failure (fst (perform lax srv client (GetCallTimeline call_id) w)) = timeline_failure body"
  using assms(2,3)
  by (auto simp: failure_as_outcome fst_and_then make_request_answered [OF assms(1)]
      get_call_timeline_def decode_timeline_failure)

lemma as_outcome_Inl: "(fst (as_outcome f x) = Inl e) = (fst x = Inl e)"
  by (cases x; cases "fst x") auto

lemma and_then_Inl:
  "(fst (and_then x f) = Inl e) = (fst x = Inl e \<or> (\<exists>d. fst x = Inr d \<and> f d = Inl e))"
  by (cases x; cases "fst x") auto

lemma construct_no_http_error: "construct v d \<noteq> Inl (HTTPError s)"
  by (simp add: construct_def split: pyval.splits option.splits)

lemma timeline_events_no_http_error: "timeline_events es \<noteq> Inl (HTTPError s)"
  by (induction es) (auto simp: construct_no_http_error split: sum.splits)

lemma decode_timeline_no_http_error: "decode_timeline d \<noteq> Inl (HTTPError s)"
  by (simp add: decode_timeline_def timeline_events_no_http_error
      split: pyval.splits option.splits)

lemma make_request_no_http_error:
  assumes "answers srv w r"
    and "\<not> (400 \<le> resp_status_code r \<and> resp_status_code r < 600)"
  shows "fst (make_request srv client m ep json params w) \<noteq> Inl (HTTPError s)"
  using assms(2) by (auto simp: make_request_answered [OF assms(1)] split: option.splits)

lemma perform_no_http_error:
  assumes "answers srv w r"
    and "\<not> (400 \<le> resp_status_code r \<and> resp_status_code r < 600)"
  shows "fst (perform lax srv client op w) \<noteq> Inl (HTTPError s)"
proof (cases op)
  case GetMetrics
  then show ?thesis using assms(2)
    by (auto simp: as_outcome_Inl get_metrics_answered [OF assms(1)])
qed (simp_all add: as_outcome_Inl and_then_Inl make_request_no_http_error [OF assms]
      construct_no_http_error decode_timeline_no_http_error Let_def op_defs)



text \<open>
  C5. Amended: for every operation and every response, a status from 400 to 599 always
  raises \<open>HTTPError\<close> with that status, and a response with any other status never raises
  \<open>HTTPError\<close>. A response with any other status whose body is a JSON object that does not
  match the entity schema always raises \<open>ValidationError\<close>, for every operation but
  \<open>get_call_timeline\<close>. On such a response \<open>get_call_timeline\<close> raises \<open>ValidationError\<close>
  where the value under \<open>timeline\<close> is a list and its first item that is no valid event is a
  JSON object; it raises \<open>TypeError\<close> where that item is no object, or where the value is
  neither a list nor an empty string nor an empty object; and it raises nothing otherwise. An
  invocation has one outcome, so the kinds of failure exclude each other.
\<close>

theorem failure_kinds_are_separate:
  assumes "answers srv w r"
  shows "(400 \<le> resp_status_code r \<and> resp_status_code r < 600 \<longrightarrow>
            fst (perform lax srv client op w) = Inl (HTTPError (resp_status_code r)))
    \<and> (\<not> (400 \<le> resp_status_code r \<and> resp_status_code r < 600) \<longrightarrow>
            fst (perform lax srv client op w) \<noteq> Inl (HTTPError s))
    \<and> (\<not> (400 \<le> resp_status_code r \<and> resp_status_code r < 600)
          \<and> resp_json r = Some (PDict body) \<and> schema_rejects lax op body
          \<and> \<not> reads_timeline op \<longrightarrow>
            fst (perform lax srv client op w) = Inl ValidationError)
    \<and> (\<not> (400 \<le> resp_status_code r \<and> resp_status_code r < 600)
          \<and> resp_json r = Some (PDict body) \<longrightarrow>
            failure (fst (perform lax srv client (GetCallTimeline call_id) w)) =
              timeline_failure body)"
  using perform_failure_status [OF assms] perform_no_http_error [OF assms]
    perform_schema_mismatch [OF assms] perform_timeline [OF assms]
  by blast

text \<open>
  \<open>get_agent\<close> on the status 404, and on the status 200 with the empty object, which has
  none of the required fields of an agent; \<open>get_call_timeline\<close> on a timeline whose item is an
  empty object, on one whose item is a number, and on a timeline that is null.
\<close>

theorem failure_kinds_are_separate_witness:
  "fst (perform no_lax
          (answering \<lparr>resp_status_code = 404, resp_json = Some (PDict []), resp_text = ''{}''\<rparr>)
          example_client (GetAgent ''agent-1'') fresh_world) = Inl (HTTPError 404)
   \<and> fst (perform no_lax
          (answering \<lparr>resp_status_code = 200, resp_json = Some (PDict []), resp_text = ''{}''\<rparr>)
          example_client (GetAgent ''agent-1'') fresh_world) = Inl ValidationError
   \<and> fst (perform no_lax
          (answering \<lparr>resp_status_code = 200, resp_json = Some (PDict []), resp_text = ''{}''\<rparr>)
          example_client (GetAgent ''agent-1'') fresh_world) \<noteq> Inl (HTTPError 200)
   \<and> failure (fst (perform no_lax
          (answering \<lparr>resp_status_code = 200,
             resp_json = Some (PDict [(''timeline'', PList [PDict []])]), resp_text = []\<rparr>)
          example_client (GetCallTimeline ''call-1'') fresh_world)) = Some ValidationError
   \<and> failure (fst (perform no_lax
          (answering \<lparr>resp_status_code = 200,
             resp_json = Some (PDict [(''timeline'', PList [PInt 1])]), resp_text = []\<rparr>)
          example_client (GetCallTimeline ''call-1'') fresh_world)) = Some TypeError
   \<and> failure (fst (perform no_lax
          (answering \<lparr>resp_status_code = 200,
             resp_json = Some (PDict [(''timeline'', PNone)]), resp_text = []\<rparr>)
          example_client (GetCallTimeline ''call-1'') fresh_world)) = Some TypeError"
proof -
  have a: "answers (answering x) fresh_world x" for x
    by (simp add: answers_def answering_def)
  have rej: "schema_rejects no_lax (GetAgent ''agent-1'') []"
    by (simp add: validate_Agent_def required_def)
  have t: "timeline_failure [(''timeline'', PList [PDict []])] = Some ValidationError"
      "timeline_failure [(''timeline'', PList [PInt 1])] = Some TypeError"
      "timeline_failure [(''timeline'', PNone)] = Some TypeError"
    by (simp_all add: timeline_failure_def valid_event_def validate_TimelineEvent_def required_def)
  show ?thesis
    using failure_kinds_are_separate [OF a, of
        "\<lparr>resp_status_code = 404, resp_json = Some (PDict []), resp_text = ''{}''\<rparr>"
        no_lax example_client "GetAgent ''agent-1''" 404 "[]"]
      failure_kinds_are_separate [OF a, of
        "\<lparr>resp_status_code = 200, resp_json = Some (PDict []), resp_text = ''{}''\<rparr>"
        no_lax example_client "GetAgent ''agent-1''" 200 "[]"]
      failure_kinds_are_separate [OF a, of
        "\<lparr>resp_status_code = 200, resp_json = Some (PDict [(''timeline'', PList [PDict []])]),
          resp_text = []\<rparr>"
        no_lax example_client "GetAgent ''agent-1''" 200 "[(''timeline'', PList [PDict []])]" "''call-1''"]
      failure_kinds_are_separate [OF a, of
        "\<lparr>resp_status_code = 200, resp_json = Some (PDict [(''timeline'', PList [PInt 1])]),
          resp_text = []\<rparr>"
        no_lax example_client "GetAgent ''agent-1''" 200 "[(''timeline'', PList [PInt 1])]" "''call-1''"]
      failure_kinds_are_separate [OF a, of
        "\<lparr>resp_status_code = 200, resp_json = Some (PDict [(''timeline'', PNone)]),
          resp_text = []\<rparr>"
        no_lax example_client "GetAgent ''agent-1''" 200 "[(''timeline'', PNone)]" "''call-1''"]
      rej t
    by simp
qed

text \<open>
  The claim as stated fails on a response with the status 200 whose body is the JSON list
  \<open>[]\<close>: it does not match the schema of an agent, and \<open>Agent(**data)\<close> raises \<open>TypeError\<close>,
  not \<open>ValidationError\<close>. The status 304 is no success status, and \<open>raise_for_status\<close>
  does not raise for it: the failure is the \<open>JSONDecodeError\<close> of the empty body. A timeline
  that is null does not match the schema either, and iterating it raises \<open>TypeError\<close>.
\<close>

theorem failure_kinds_counterexample:
  "fst (get_agent no_lax
          (answering \<lparr>resp_status_code = 200, resp_json = Some (PList []), resp_text = ''[]''\<rparr>)
          example_client ''agent-1'' fresh_world) = Inl TypeError
   \<and> fst (get_agent no_lax
          (answering \<lparr>resp_status_code = 304, resp_json = None, resp_text = []\<rparr>)
          example_client ''agent-1'' fresh_world) = Inl JSONDecodeError
   \<and> fst (get_call_timeline
          (answering \<lparr>resp_status_code = 200,
             resp_json = Some (PDict [(''timeline'', PNone)]), resp_text = []\<rparr>)
          example_client ''call-1'' fresh_world) = Inl TypeError"
  by (simp add: get_agent_def get_call_timeline_def decode_timeline_def make_request_def
      session_request_def answering_def raise_for_status_def construct_def fresh_world_def Let_def)

section \<open>The round trip of an agent configuration (C8)\<close>

lemma dump_lookup:
  "map_of (AgentConfig_model_dump c) k =
     (case map_of (AgentConfig_fields c) k of
        None \<Rightarrow> None | Some v \<Rightarrow> if v = PNone then None else Some v)"
  unfolding AgentConfig_model_dump_def
  by (rule map_of_exclude_none) (simp add: AgentConfig_fields_def)

lemma v_all_any: "v_all (\<lambda>kv. map_option (Pair (fst kv)) (v_any (snd kv))) kvs = Some kvs"
  by (induction kvs) (simp_all add: v_any_def)

lemma v_dict_any: "v_dict v_any (PDict kvs) = Some kvs"
  by (simp add: v_dict_def v_all_any)

lemma v_all_dicts: "v_all (v_dict v_any) (map PDict ts) = Some ts"
  by (induction ts) (simp_all add: v_dict_any)

lemma v_list_dicts: "v_list (v_dict v_any) (PList (map PDict ts)) = Some ts"
  by (simp add: v_list_def v_all_dicts)

lemma validate_dump:
  assumes "ac_locale c \<noteq> None" "ac_temperature c \<noteq> None" "ac_model c \<noteq> None"
    "ac_max_tokens c \<noteq> None"
  shows "validate_AgentConfig lax (AgentConfig_model_dump c) = Some c"
proof (cases c)
  case (fields name prompt voice loc temperature model max_tokens system_prompt tools metadata)
  obtain l t m k where s: "loc = Some l" "temperature = Some t" "model = Some m"
      "max_tokens = Some k"
    using assms fields by auto
  have name: "required (AgentConfig_model_dump c) ''name'' v_str = Some name"
    and prompt: "required (AgentConfig_model_dump c) ''prompt'' v_str = Some prompt"
    using fields by (simp_all add: required_def dump_lookup AgentConfig_fields_def v_str_def)
  have voice: "with_default (AgentConfig_model_dump c) ''voice'' None (v_optional v_str) = Some voice"
    using fields
    by (cases voice)
      (simp_all add: with_default_def dump_lookup AgentConfig_fields_def v_optional_def v_str_def)
  have loc: "with_default (AgentConfig_model_dump c) ''locale'' (Some ''en-IN'') (v_optional v_str)
      = Some loc"
    using fields s
    by (simp add: with_default_def dump_lookup AgentConfig_fields_def v_optional_def v_str_def)
  have temperature: "with_default (AgentConfig_model_dump c) ''temperature'' (Some (7 / 10))
      (v_optional (v_float lax)) = Some temperature"
    using fields s
    by (simp add: with_default_def dump_lookup AgentConfig_fields_def v_optional_def v_float_def)
  have model: "with_default (AgentConfig_model_dump c) ''model'' (Some ''gpt-4o-mini'')
      (v_optional v_str) = Some model"
    using fields s
    by (simp add: with_default_def dump_lookup AgentConfig_fields_def v_optional_def v_str_def)
  have max_tokens: "with_default (AgentConfig_model_dump c) ''max_tokens'' (Some 1000)
      (v_optional (v_int lax)) = Some max_tokens"
    using fields s
    by (simp add: with_default_def dump_lookup AgentConfig_fields_def v_optional_def v_int_def)
  have system_prompt: "with_default (AgentConfig_model_dump c) ''system_prompt'' None
      (v_optional v_str) = Some system_prompt"
    using fields
    by (cases system_prompt)
      (simp_all add: with_default_def dump_lookup AgentConfig_fields_def v_optional_def v_str_def)
  have tools: "with_default (AgentConfig_model_dump c) ''tools'' None
      (v_optional (v_list (v_dict v_any))) = Some tools"
    using fields
    by (cases tools)
      (simp_all add: with_default_def dump_lookup AgentConfig_fields_def v_optional_def
        v_list_dicts)
  have metadata: "with_default (AgentConfig_model_dump c) ''metadata'' None
      (v_optional (v_dict v_any)) = Some metadata"
    using fields
    by (cases metadata)
      (simp_all add: with_default_def dump_lookup AgentConfig_fields_def v_optional_def
        v_dict_any)
  show ?thesis
    unfolding validate_AgentConfig_def name prompt voice loc temperature model max_tokens
      system_prompt tools metadata
    using fields by simp
qed

lemma server_echo_decodes:
  assumes "ac_locale c \<noteq> None" "ac_temperature c \<noteq> None" "ac_model c \<noteq> None"
    "ac_max_tokens c \<noteq> None"
  shows "validate_Agent lax (server_echo c) =
    Some \<lparr>ag_id = ''agent-1'', ag_name = ac_name c, ag_config = c,
          ag_status = AgentStatus_DRAFT, ag_tenant_id = ''tenant-1'',
          ag_created_at = ''2024-01-01T00:00:00Z'', ag_updated_at = ''2024-01-01T00:00:00Z'',
          ag_stats = None\<rparr>"
  by (simp add: validate_Agent_def server_echo_def required_def with_default_def v_str_def
      v_model_def validate_dump [OF assms] v_AgentStatus_def)

lemma echo_full: "validate_Agent lax (server_echo full_config) = Some full_agent"
proof -
  have f: "ac_locale full_config \<noteq> None" "ac_temperature full_config \<noteq> None"
    "ac_model full_config \<noteq> None" "ac_max_tokens full_config \<noteq> None"
    by (simp_all add: full_config_def)
  have n: "ac_name full_config = ''Support''" by (simp add: full_config_def)
  show ?thesis by (simp add: server_echo_decodes [OF f] full_agent_def n)
qed

text \<open>
  C8. Amended: for every \<open>AgentConfig\<close> value whose \<open>locale\<close>, \<open>temperature\<close>, \<open>model\<close> and
  \<open>max_tokens\<close> are set (not \<open>None\<close>), encoding it as \<open>create_agent\<close> does and decoding the
  encoded mapping gives the value back; the server echo decodes to an agent whose \<open>config\<close> is
  the value; and every payload whose \<open>config\<close> is the encoded mapping and that decodes to an
  agent gives an agent whose \<open>config\<close> is the value, field for field.
\<close>

theorem agent_config_round_trip:
  assumes "ac_locale c \<noteq> None" "ac_temperature c \<noteq> None" "ac_model c \<noteq> None"
    "ac_max_tokens c \<noteq> None"
  shows "validate_AgentConfig lax (AgentConfig_model_dump c) = Some c
    \<and> construct (validate_Agent lax) (PDict (server_echo c)) =
        Inr \<lparr>ag_id = ''agent-1'', ag_name = ac_name c, ag_config = c,
             ag_status = AgentStatus_DRAFT, ag_tenant_id = ''tenant-1'',
             ag_created_at = ''2024-01-01T00:00:00Z'', ag_updated_at = ''2024-01-01T00:00:00Z'',
             ag_stats = None\<rparr>
    \<and> (map_of payload ''config'' = Some (PDict (AgentConfig_model_dump c))
          \<and> construct (validate_Agent lax) (PDict payload) = Inr agent \<longrightarrow>
        ag_config agent = c)"
proof (intro conjI impI)
  show "validate_AgentConfig lax (AgentConfig_model_dump c) = Some c"
    by (rule validate_dump [OF assms])
  show "construct (validate_Agent lax) (PDict (server_echo c)) =
        Inr \<lparr>ag_id = ''agent-1'', ag_name = ac_name c, ag_config = c,
             ag_status = AgentStatus_DRAFT, ag_tenant_id = ''tenant-1'',
             ag_created_at = ''2024-01-01T00:00:00Z'', ag_updated_at = ''2024-01-01T00:00:00Z'',
             ag_stats = None\<rparr>"
    by (simp add: construct_def server_echo_decodes [OF assms])
next
  assume p: "map_of payload ''config'' = Some (PDict (AgentConfig_model_dump c))
          \<and> construct (validate_Agent lax) (PDict payload) = Inr agent"
  have "required payload ''config'' (v_model (validate_AgentConfig lax)) = Some c"
    using p validate_dump [OF assms] by (simp add: required_def v_model_def)
  then show "ag_config agent = c" using p
    by (auto simp: construct_def validate_Agent_def split: option.splits Option.bind_splits)
qed

text \<open>The configuration with every field set, and its echo.\<close>

theorem agent_config_round_trip_witness:
  "validate_AgentConfig no_lax (AgentConfig_model_dump full_config) = Some full_config
   \<and> construct (validate_Agent no_lax) (PDict (server_echo full_config)) = Inr full_agent
   \<and> ag_config full_agent = full_config"
proof -
  have f: "ac_locale full_config \<noteq> None" "ac_temperature full_config \<noteq> None"
    "ac_model full_config \<noteq> None" "ac_max_tokens full_config \<noteq> None"
    by (simp_all add: full_config_def)
  have p: "map_of (server_echo full_config) ''config'' =
      Some (PDict (AgentConfig_model_dump full_config))"
    by (simp add: server_echo_def)
  have d: "construct (validate_Agent no_lax) (PDict (server_echo full_config)) = Inr full_agent"
    by (simp add: construct_def echo_full)
  show ?thesis
    using agent_config_round_trip [OF f, of no_lax "server_echo full_config" full_agent] p d
    by simp
qed

text \<open>
  The claim as stated fails for the configuration with only the required fields set: its
  encoding omits the four fields, and decoding puts their defaults in their place.
\<close>

theorem agent_config_round_trip_counterexample:
  "construct (validate_Agent no_lax) (PDict (server_echo bare_config)) =
     Inr \<lparr>ag_id = ''agent-1'', ag_name = ''Support'',
          ag_config = bare_config\<lparr>ac_locale := Some ''en-IN'', ac_temperature := Some (7 / 10),
            ac_model := Some ''gpt-4o-mini'', ac_max_tokens := Some 1000\<rparr>,
          ag_status = AgentStatus_DRAFT, ag_tenant_id = ''tenant-1'',
          ag_created_at = ''2024-01-01T00:00:00Z'', ag_updated_at = ''2024-01-01T00:00:00Z'',
          ag_stats = None\<rparr>
   \<and> bare_config\<lparr>ac_locale := Some ''en-IN'', ac_temperature := Some (7 / 10),
            ac_model := Some ''gpt-4o-mini'', ac_max_tokens := Some 1000\<rparr> \<noteq> bare_config"
proof -
  have d: "AgentConfig_model_dump bare_config =
      [(''name'', PStr ''Support''), (''prompt'', PStr ''You are helpful.'')]"
    by (simp add: AgentConfig_model_dump_def AgentConfig_fields_def exclude_none_def
        bare_config_def)
  have v: "validate_AgentConfig no_lax
      [(''name'', PStr ''Support''), (''prompt'', PStr ''You are helpful.'')] =
      Some (bare_config\<lparr>ac_locale := Some ''en-IN'', ac_temperature := Some (7 / 10),
            ac_model := Some ''gpt-4o-mini'', ac_max_tokens := Some 1000\<rparr>)"
    by (simp add: validate_AgentConfig_def required_def with_default_def v_str_def
        bare_config_def)
  have n: "ac_name bare_config = ''Support''" by (simp add: bare_config_def)
  have a: "construct (validate_Agent no_lax) (PDict (server_echo bare_config)) =
     Inr \<lparr>ag_id = ''agent-1'', ag_name = ''Support'',
          ag_config = bare_config\<lparr>ac_locale := Some ''en-IN'', ac_temperature := Some (7 / 10),
            ac_model := Some ''gpt-4o-mini'', ac_max_tokens := Some 1000\<rparr>,
          ag_status = AgentStatus_DRAFT, ag_tenant_id = ''tenant-1'',
          ag_created_at = ''2024-01-01T00:00:00Z'', ag_updated_at = ''2024-01-01T00:00:00Z'',
          ag_stats = None\<rparr>"
    by (simp add: construct_def validate_Agent_def server_echo_def required_def
        with_default_def v_str_def v_model_def d v v_AgentStatus_def n)
  have b: "bare_config\<lparr>ac_locale := Some ''en-IN'', ac_temperature := Some (7 / 10),
            ac_model := Some ''gpt-4o-mini'', ac_max_tokens := Some 1000\<rparr> \<noteq> bare_config"
    by (simp add: bare_config_def)
  show ?thesis using a b by simp
qed

section \<open>The batch helpers (C7)\<close>

lemma create_each_failure:
  assumes "create_each create items results w = (Inl e, w')"
    and "\<And>x v. sent (snd (create x v)) = sent v @ [req x]"
  shows "\<exists>i rs wi. i < length items
           \<and> create_each create (take i items) results w = (Inr (results @ rs), wi)
           \<and> length rs = i
           \<and> create (items ! i) wi = (Inl e, w')
           \<and> sent w' = sent w @ map req (take (Suc i) items)"
  using assms(1)
proof (induction items arbitrary: results w)
  case Nil
  then show ?case by simp
next
  case (Cons item items)
  obtain out w1 where c: "create item w = (out, w1)" by (cases "create item w")
  have s1: "sent w1 = sent w @ [req item]" using assms(2) [of item w] c by simp
  show ?case
  proof (cases out)
    case (Inl e1)
    then have "e1 = e" "w1 = w'" using Cons.prems c by simp_all
    then have "0 < length (item # items)
        \<and> create_each create (take 0 (item # items)) results w = (Inr (results @ []), w)
        \<and> length ([] :: 'b list) = 0
        \<and> create ((item # items) ! 0) w = (Inl e, w')
        \<and> sent w' = sent w @ map req (take (Suc 0) (item # items))"
      using c Inl s1 by simp
    then show ?thesis by blast
  next
    case (Inr r)
    then have "create_each create items (results @ [r]) w1 = (Inl e, w')"
      using Cons.prems c by simp
    from Cons.IH [OF this] obtain i rs wi where
      i: "i < length items"
        "create_each create (take i items) (results @ [r]) w1 = (Inr ((results @ [r]) @ rs), wi)"
        "length rs = i" "create (items ! i) wi = (Inl e, w')"
        "sent w' = sent w1 @ map req (take (Suc i) items)"
      by blast
    have "Suc i < length (item # items)
        \<and> create_each create (take (Suc i) (item # items)) results w = (Inr (results @ (r # rs)), wi)
        \<and> length (r # rs) = Suc i
        \<and> create ((item # items) ! Suc i) wi = (Inl e, w')
        \<and> sent w' = sent w @ map req (take (Suc (Suc i)) (item # items))"
      using i c Inr s1 by simp
    then show ?thesis by blast
  qed
qed

lemma create_each_success:
  assumes "create_each create items results w = (Inr out, w')"
    and "\<And>x v. sent (snd (create x v)) = sent v @ [req x]"
  shows "\<exists>rs. out = results @ rs \<and> length rs = length items
           \<and> sent w' = sent w @ map req items
           \<and> (\<forall>j<length items. \<exists>wj wj'.
                 create_each create (take j items) results w = (Inr (results @ take j rs), wj)
                 \<and> create (items ! j) wj = (Inr (rs ! j), wj'))"
  using assms(1)
proof (induction items arbitrary: results w)
  case Nil
  then show ?case by simp
next
  case (Cons item items)
  obtain res w1 where c: "create item w = (res, w1)" by (cases "create item w")
  have s1: "sent w1 = sent w @ [req item]" using assms(2) [of item w] c by simp
  show ?case
  proof (cases res)
    case (Inl e1)
    then show ?thesis using Cons.prems c by simp
  next
    case (Inr r)
    then have "create_each create items (results @ [r]) w1 = (Inr out, w')"
      using Cons.prems c by simp
    from Cons.IH [OF this] obtain rs where
      rs: "out = (results @ [r]) @ rs" "length rs = length items"
        "sent w' = sent w1 @ map req items"
        "\<forall>j<length items. \<exists>wj wj'.
           create_each create (take j items) (results @ [r]) w1 = (Inr ((results @ [r]) @ take j rs), wj)
           \<and> create (items ! j) wj = (Inr (rs ! j), wj')"
      by blast
    have each: "\<exists>wj wj'.
           create_each create (take j (item # items)) results w = (Inr (results @ take j (r # rs)), wj)
           \<and> create ((item # items) ! j) wj = (Inr ((r # rs) ! j), wj')"
      if "j < length (item # items)" for j
    proof (cases j)
      case 0
      then show ?thesis using c Inr by simp
    next
      case (Suc k)
      then have "k < length items" using that by simp
      with rs(4) obtain wj wj' where
        "create_each create (take k items) (results @ [r]) w1 = (Inr ((results @ [r]) @ take k rs), wj)"
        "create (items ! k) wj = (Inr (rs ! k), wj')"
        by blast
      then have "create_each create (take j (item # items)) results w = (Inr (results @ take j (r # rs)), wj)
           \<and> create ((item # items) ! j) wj = (Inr ((r # rs) ! j), wj')"
        using Suc c Inr by simp
      then show ?thesis by blast
    qed
    have "out = results @ (r # rs) \<and> length (r # rs) = length (item # items)
           \<and> sent w' = sent w @ map req (item # items)"
      using rs s1 by simp
    then show ?thesis using each by blast
  qed
qed

lemma create_agent_sent:
  "sent (snd (create_agent lax srv client config w)) = sent w @ [create_agent_request client config]"
  by (simp add: create_agent_def snd_and_then make_request_sent create_agent_request_def)

lemma create_call_sent:
  "sent (snd (create_call srv client options w)) = sent w @ [create_call_request client options]"
  by (simp add: create_call_def Let_def make_request_sent create_call_request_def)

text \<open>
  C7. \<open>create_multiple_agents\<close> and \<open>create_multiple_calls\<close> create the items one after
  another, in the order of the list. If the helper fails with \<open>e\<close>, then for some position
  \<open>i\<close> the creations before \<open>i\<close> have succeeded in sequence, the creation at \<open>i\<close>, started in
  the world that they left, has raised \<open>e\<close>, the world after it is the world the helper
  leaves, and the requests sent are those of the items up to \<open>i\<close>, in order, and no other: no
  later creation is attempted, nothing is undone, and no list is returned. If the helper
  returns a list, it holds one result for each item, in order, and the requests sent are
  those of all items.
\<close>

theorem batch_stops_at_first_failure:
  "(create_multiple_agents lax srv client configs w = (Inl e, w') \<longrightarrow>
      (\<exists>i agents wi. i < length configs
         \<and> create_multiple_agents lax srv client (take i configs) w = (Inr agents, wi)
         \<and> length agents = i
         \<and> create_agent lax srv client (configs ! i) wi = (Inl e, w')
         \<and> sent w' = sent w @ map (create_agent_request client) (take (Suc i) configs)))
   \<and> (create_multiple_agents lax srv client configs w = (Inr agents, w') \<longrightarrow>
      length agents = length configs
      \<and> sent w' = sent w @ map (create_agent_request client) configs
      \<and> (\<forall>j<length configs. \<exists>wj wj'.
            create_multiple_agents lax srv client (take j configs) w = (Inr (take j agents), wj)
            \<and> create_agent lax srv client (configs ! j) wj = (Inr (agents ! j), wj')))
   \<and> (create_multiple_calls srv client call_options w = (Inl e, w') \<longrightarrow>
      (\<exists>i calls wi. i < length call_options
         \<and> create_multiple_calls srv client (take i call_options) w = (Inr calls, wi)
         \<and> length calls = i
         \<and> create_call srv client (call_options ! i) wi = (Inl e, w')
         \<and> sent w' = sent w @ map (create_call_request client) (take (Suc i) call_options)))
   \<and> (create_multiple_calls srv client call_options w = (Inr calls, w') \<longrightarrow>
      length calls = length call_options
      \<and> sent w' = sent w @ map (create_call_request client) call_options
      \<and> (\<forall>j<length call_options. \<exists>wj wj'.
            create_multiple_calls srv client (take j call_options) w = (Inr (take j calls), wj)
            \<and> create_call srv client (call_options ! j) wj = (Inr (calls ! j), wj')))"
proof (intro conjI impI)
  assume "create_multiple_agents lax srv client configs w = (Inl e, w')"
  then have "create_each (create_agent lax srv client) configs [] w = (Inl e, w')"
    by (simp add: create_multiple_agents_def)
  from create_each_failure [OF this create_agent_sent]
  show "\<exists>i agents wi. i < length configs
         \<and> create_multiple_agents lax srv client (take i configs) w = (Inr agents, wi)
         \<and> length agents = i
         \<and> create_agent lax srv client (configs ! i) wi = (Inl e, w')
         \<and> sent w' = sent w @ map (create_agent_request client) (take (Suc i) configs)"
    by (simp add: create_multiple_agents_def)
next
  assume "create_multiple_calls srv client call_options w = (Inl e, w')"
  then have "create_each (create_call srv client) call_options [] w = (Inl e, w')"
    by (simp add: create_multiple_calls_def)
  from create_each_failure [OF this create_call_sent]
  show "\<exists>i calls wi. i < length call_options
         \<and> create_multiple_calls srv client (take i call_options) w = (Inr calls, wi)
         \<and> length calls = i
         \<and> create_call srv client (call_options ! i) wi = (Inl e, w')
         \<and> sent w' = sent w @ map (create_call_request client) (take (Suc i) call_options)"
    by (simp add: create_multiple_calls_def)
next
  assume "create_multiple_agents lax srv client configs w = (Inr agents, w')"
  then have "create_each (create_agent lax srv client) configs [] w = (Inr agents, w')"
    by (simp add: create_multiple_agents_def)
  from create_each_success [OF this create_agent_sent]
  have r: "length agents = length configs
      \<and> sent w' = sent w @ map (create_agent_request client) configs
      \<and> (\<forall>j<length configs. \<exists>wj wj'.
            create_multiple_agents lax srv client (take j configs) w = (Inr (take j agents), wj)
            \<and> create_agent lax srv client (configs ! j) wj = (Inr (agents ! j), wj'))"
    by (simp add: create_multiple_agents_def)
  from r show "length agents = length configs" by simp
  from r show "sent w' = sent w @ map (create_agent_request client) configs" by simp
  from r show "\<forall>j<length configs. \<exists>wj wj'.
            create_multiple_agents lax srv client (take j configs) w = (Inr (take j agents), wj)
            \<and> create_agent lax srv client (configs ! j) wj = (Inr (agents ! j), wj')" by simp
next
  assume "create_multiple_calls srv client call_options w = (Inr calls, w')"
  then have "create_each (create_call srv client) call_options [] w = (Inr calls, w')"
    by (simp add: create_multiple_calls_def)
  from create_each_success [OF this create_call_sent]
  have r: "length calls = length call_options
      \<and> sent w' = sent w @ map (create_call_request client) call_options
      \<and> (\<forall>j<length call_options. \<exists>wj wj'.
            create_multiple_calls srv client (take j call_options) w = (Inr (take j calls), wj)
            \<and> create_call srv client (call_options ! j) wj = (Inr (calls ! j), wj'))"
    by (simp add: create_multiple_calls_def)
  from r show "length calls = length call_options" by simp
  from r show "sent w' = sent w @ map (create_call_request client) call_options" by simp
  from r show "\<forall>j<length call_options. \<exists>wj wj'.
            create_multiple_calls srv client (take j call_options) w = (Inr (take j calls), wj)
            \<and> create_call srv client (call_options ! j) wj = (Inr (calls ! j), wj')" by simp
qed

text \<open>
  The service that echoes once: three agents of which the second fails, one agent, two
  calls of which the second fails, and one call.
\<close>

lemma create_agent_echo_once:
  "create_agent lax echo_once client full_config \<lparr>sent = s, remote = 0\<rparr> =
     (Inr full_agent, \<lparr>sent = s @ [create_agent_request client full_config], remote = Suc 0\<rparr>)"
  by (simp add: create_agent_def make_request_def session_request_def echo_once_def
      raise_for_status_def construct_def echo_full full_agent_def create_agent_request_def)

lemma create_agent_echo_later:
  "create_agent lax echo_once client config \<lparr>sent = s, remote = Suc n\<rparr> =
     (Inl (HTTPError 500), \<lparr>sent = s @ [create_agent_request client config], remote = Suc (Suc n)\<rparr>)"
  by (simp add: create_agent_def make_request_def session_request_def echo_once_def
      raise_for_status_def create_agent_request_def)

lemma create_call_echo_once:
  "create_call echo_once client options \<lparr>sent = s, remote = 0\<rparr> =
     (Inr (PDict (server_echo full_config)),
      \<lparr>sent = s @ [create_call_request client options], remote = Suc 0\<rparr>)"
  by (simp add: create_call_def make_request_def session_request_def echo_once_def
      raise_for_status_def create_call_request_def Let_def)

lemma create_call_echo_later:
  "create_call echo_once client options \<lparr>sent = s, remote = Suc n\<rparr> =
     (Inl (HTTPError 500), \<lparr>sent = s @ [create_call_request client options], remote = Suc (Suc n)\<rparr>)"
  by (simp add: create_call_def make_request_def session_request_def echo_once_def
      raise_for_status_def create_call_request_def Let_def)

theorem batch_stops_at_first_failure_witness:
  "create_multiple_agents no_lax echo_once example_client [full_config, bare_config, full_config] start =
     (Inl (HTTPError 500),
      \<lparr>sent = [create_agent_request example_client full_config,
               create_agent_request example_client bare_config], remote = 2\<rparr>)
   \<and> (\<exists>i agents wi. i < length [full_config, bare_config, full_config]
         \<and> create_multiple_agents no_lax echo_once example_client
              (take i [full_config, bare_config, full_config]) start = (Inr agents, wi)
         \<and> length agents = i
         \<and> create_agent no_lax echo_once example_client ([full_config, bare_config, full_config] ! i) wi =
              (Inl (HTTPError 500),
               \<lparr>sent = [create_agent_request example_client full_config,
                        create_agent_request example_client bare_config], remote = 2\<rparr>))
   \<and> create_multiple_agents no_lax echo_once example_client [full_config] start =
       (Inr [full_agent], \<lparr>sent = [create_agent_request example_client full_config], remote = 1\<rparr>)
   \<and> length [full_agent] = length [full_config]
   \<and> create_multiple_calls echo_once example_client [outbound_call, outbound_call] start =
     (Inl (HTTPError 500),
      \<lparr>sent = [create_call_request example_client outbound_call,
               create_call_request example_client outbound_call], remote = 2\<rparr>)
   \<and> (\<exists>i calls wi. i < length [outbound_call, outbound_call]
         \<and> create_multiple_calls echo_once example_client
              (take i [outbound_call, outbound_call]) start = (Inr calls, wi)
         \<and> length calls = i
         \<and> create_call echo_once example_client ([outbound_call, outbound_call] ! i) wi =
              (Inl (HTTPError 500),
               \<lparr>sent = [create_call_request example_client outbound_call,
                        create_call_request example_client outbound_call], remote = 2\<rparr>))
   \<and> create_multiple_calls echo_once example_client [outbound_call] start =
       (Inr [PDict (server_echo full_config)],
        \<lparr>sent = [create_call_request example_client outbound_call], remote = 1\<rparr>)
   \<and> length [PDict (server_echo full_config)] = length [outbound_call]"
proof -
  have a: "create_multiple_agents no_lax echo_once example_client
             [full_config, bare_config, full_config] start =
     (Inl (HTTPError 500),
      \<lparr>sent = [create_agent_request example_client full_config,
               create_agent_request example_client bare_config], remote = 2\<rparr>)"
    by (simp add: create_multiple_agents_def start_def create_agent_echo_once
        create_agent_echo_later)
  have b: "create_multiple_agents no_lax echo_once example_client [full_config] start =
       (Inr [full_agent], \<lparr>sent = [create_agent_request example_client full_config], remote = 1\<rparr>)"
    by (simp add: create_multiple_agents_def start_def create_agent_echo_once)
  have c: "create_multiple_calls echo_once example_client [outbound_call, outbound_call] start =
     (Inl (HTTPError 500),
      \<lparr>sent = [create_call_request example_client outbound_call,
               create_call_request example_client outbound_call], remote = 2\<rparr>)"
    by (simp add: create_multiple_calls_def start_def create_call_echo_once
        create_call_echo_later)
  have d: "create_multiple_calls echo_once example_client [outbound_call] start =
       (Inr [PDict (server_echo full_config)],
        \<lparr>sent = [create_call_request example_client outbound_call], remote = 1\<rparr>)"
    by (simp add: create_multiple_calls_def start_def create_call_echo_once)
  note t1 = batch_stops_at_first_failure [of no_lax echo_once example_client "[full_config, bare_config, full_config]" start
      "HTTPError 500" "\<lparr>sent = [create_agent_request example_client full_config,
               create_agent_request example_client bare_config], remote = 2\<rparr>"
      "[]" "[outbound_call, outbound_call]" "[]"]
  note t2 = batch_stops_at_first_failure [of no_lax echo_once example_client "[full_config]" start
      "HTTPError 500" "\<lparr>sent = [create_agent_request example_client full_config], remote = 1\<rparr>"
      "[full_agent]" "[outbound_call]" "[]"]
  note t3 = batch_stops_at_first_failure [of no_lax echo_once example_client "[]" start
      "HTTPError 500" "\<lparr>sent = [create_call_request example_client outbound_call,
               create_call_request example_client outbound_call], remote = 2\<rparr>"
      "[]" "[outbound_call, outbound_call]" "[]"]
  note t4 = batch_stops_at_first_failure [of no_lax echo_once example_client "[]" start
      "HTTPError 500" "\<lparr>sent = [create_call_request example_client outbound_call], remote = 1\<rparr>"
      "[]" "[outbound_call]" "[PDict (server_echo full_config)]"]
  have e1: "\<exists>i agents wi. i < length [full_config, bare_config, full_config]
         \<and> create_multiple_agents no_lax echo_once example_client
              (take i [full_config, bare_config, full_config]) start = (Inr agents, wi)
         \<and> length agents = i
         \<and> create_agent no_lax echo_once example_client ([full_config, bare_config, full_config] ! i) wi =
              (Inl (HTTPError 500),
               \<lparr>sent = [create_agent_request example_client full_config,
                        create_agent_request example_client bare_config], remote = 2\<rparr>)"
    using t1 a by blast
  have e2: "length [full_agent] = length [full_config]"
    using t2 b by blast
  have e3: "\<exists>i calls wi. i < length [outbound_call, outbound_call]
         \<and> create_multiple_calls echo_once example_client
              (take i [outbound_call, outbound_call]) start = (Inr calls, wi)
         \<and> length calls = i
         \<and> create_call echo_once example_client ([outbound_call, outbound_call] ! i) wi =
              (Inl (HTTPError 500),
               \<lparr>sent = [create_call_request example_client outbound_call,
                        create_call_request example_client outbound_call], remote = 2\<rparr>)"
    using t3 c by blast
  have e4: "length [PDict (server_echo full_config)] = length [outbound_call]"
    using t4 d by blast
  show ?thesis using a b c d e1 e2 e3 e4 by blast
qed

end
